theory Spec2Isabelle
  imports Complex_Main "HOL-Library.Char_ord" "HOL-Library.List_Lexorder"
begin

text \<open>
  A model of the shipping-quote backend: the signature verifier
  (\<^verbatim>\<open>verifyShopifyProxy\<close>), the catalog synchronizer (\<^verbatim>\<open>YampiSkuMap\<close>), the
  quote cache and the handler of the proxy route, each definition next to the source
  text it renders. Functions of the platform (the keyed digest, \<^verbatim>\<open>Number\<close> on
  strings, \<^verbatim>\<open>JSON.stringify\<close>, \<^verbatim>\<open>fetch\<close>, the clock) are parameters; an
  exception is a value (\<open>Inl\<close> of its message); every mutable \<^verbatim>\<open>Map\<close> is passed in
  and returned. The definitions come first, the properties after them.
\<close>

section \<open>JavaScript values of the request\<close>

text \<open>
  Strings are lists of code units (\<^typ>\<open>char\<close>); the order on them, from
  \<open>Char_ord\<close> and \<open>List_Lexorder\<close>, compares code unit by code unit, which is
  what \<^verbatim>\<open>Array.prototype.sort()\<close> does on strings.

  A request parameter, as the query-string and body parsers deliver it, is a string or
  an array of strings. A JavaScript object is the list of its properties in enumeration
  order; in a well-formed object the keys are distinct.
\<close>

datatype pval = Str string | Arr "string list"

type_synonym jsobject = "(string \<times> pval) list"

text \<open>\<^verbatim>\<open>Array.prototype.join(sep)\<close>\<close>

fun join :: "string \<Rightarrow> string list \<Rightarrow> string" where
  "join sep [] = []"
| "join sep [x] = x"
| "join sep (x # y # ys) = x @ sep @ join sep (y # ys)"

text \<open>\<^verbatim>\<open>String(v)\<close>, which is also what a template literal renders: an array is joined by commas.\<close>

fun to_String :: "pval \<Rightarrow> string" where
  "to_String (Str s) = s"
| "to_String (Arr xs) = join '','' xs"

text \<open>Truthiness: the empty string is the only falsy parameter value; every array is truthy.\<close>

fun truthy :: "pval \<Rightarrow> bool" where
  "truthy (Str s) = (s \<noteq> [])"
| "truthy (Arr xs) = True"

section \<open>Signature verifier\<close>

text \<open>
  \<^verbatim>\<open>
  export function verifyShopifyProxy(query, secret) {
    if (!secret) return false;
    const { signature, ...params } = query || {};
    if (!signature) return false;
    const base = Object.keys(params).sort().map((k) => `${k}=${params[k]}`).join('');
    const digest = crypto.createHmac('sha256', secret).update(base).digest('hex');
    return digest === signature;
  }
  \<close>
  The keyed digest of Node's \<^verbatim>\<open>crypto\<close> library is a parameter \<open>hmac key message\<close>.
  \<open>query\<close> and \<open>secret\<close> may be undefined (\<open>None\<close>).
\<close>

definition rest_params :: "jsobject \<Rightarrow> jsobject" where
  "rest_params q = filter (\<lambda>kv. fst kv \<noteq> ''signature'') q"

definition render_pair :: "jsobject \<Rightarrow> string \<Rightarrow> string" where
  "render_pair params k =
     k @ ''='' @ (case map_of params k of Some v \<Rightarrow> to_String v | None \<Rightarrow> ''undefined'')"

definition signing_base :: "jsobject \<Rightarrow> string" where
  "signing_base params = concat (map (render_pair params) (sort (map fst params)))"

definition verifyShopifyProxy ::
  "(string \<Rightarrow> string \<Rightarrow> string) \<Rightarrow> jsobject option \<Rightarrow> string option \<Rightarrow> bool" where
  "verifyShopifyProxy hmac query secret =
     (case secret of
        None \<Rightarrow> False
      | Some sec \<Rightarrow>
          if sec = [] then False
          else
            let q = (case query of None \<Rightarrow> [] | Some q \<Rightarrow> q);
                signature = map_of q ''signature'';
                params = rest_params q
            in (case signature of
                  None \<Rightarrow> False
                | Some sg \<Rightarrow>
                    if \<not> truthy sg then False
                    else
                      let base = signing_base params;
                          digest = hmac sec base
                      in Str digest = sg))"

text \<open>
  The specification's wording of the signed payload: the parameters other than
  \<open>signature\<close>, as \<open>key=value\<close>, in ascending order of the keys, with no separator.
\<close>

definition canonical_payload :: "jsobject \<Rightarrow> string" where
  "canonical_payload q =
     concat (map (\<lambda>k. k @ ''='' @ to_String (the (map_of q k)))
       (sorted_list_of_set (fst ` set q - {''signature''})))"

section \<open>Strings and numbers of the catalog\<close>

text \<open>
  The model's strings are ASCII text: \<open>trim\<close> removes the ASCII white space and line
  terminators at both ends, and the case conversions map the 26 letters and leave every
  other code unit alone. (On text outside ASCII the library functions know more white
  space and more letters.)
\<close>

definition is_space :: "char \<Rightarrow> bool" where
  "is_space c = (c \<in> set [CHR 0x09, CHR 0x0A, CHR 0x0B, CHR 0x0C, CHR 0x0D, CHR 0x20])"

definition trim :: "string \<Rightarrow> string" where
  "trim s = rev (dropWhile is_space (rev (dropWhile is_space s)))"

definition lower_letters :: string where
  "lower_letters = ''abcdefghijklmnopqrstuvwxyz''"

definition upper_letters :: string where
  "upper_letters = ''ABCDEFGHIJKLMNOPQRSTUVWXYZ''"

definition toUpperCase :: "string \<Rightarrow> string" where
  "toUpperCase s =
     map (\<lambda>c. case map_of (zip lower_letters upper_letters) c of Some d \<Rightarrow> d | None \<Rightarrow> c) s"

definition toLowerCase :: "string \<Rightarrow> string" where
  "toLowerCase s =
     map (\<lambda>c. case map_of (zip upper_letters lower_letters) c of Some d \<Rightarrow> d | None \<Rightarrow> c) s"

text \<open>
  A JavaScript number: a finite value (a rational; the sign of zero is not kept), one of
  the two infinities, or NaN.
\<close>

datatype jsnum = NaN | PosInf | NegInf | Num rat

text \<open>\<^verbatim>\<open>!n\<close> on a number: zero and NaN are falsy.\<close>

definition falsy_num :: "jsnum \<Rightarrow> bool" where
  "falsy_num n = (n = NaN \<or> n = Num 0)"

text \<open>\<^verbatim>\<open>a >= b\<close> for a finite \<open>a\<close>: every comparison with NaN is false.\<close>

fun ge_num :: "rat \<Rightarrow> jsnum \<Rightarrow> bool" where
  "ge_num a NaN = False"
| "ge_num a PosInf = False"
| "ge_num a NegInf = True"
| "ge_num a (Num b) = (b \<le> a)"

text \<open>The specification's "positive integer".\<close>

fun positive_integer :: "jsnum \<Rightarrow> bool" where
  "positive_integer (Num r) = (0 < r \<and> r = of_int \<lfloor>r\<rfloor>)"
| "positive_integer NaN = False"
| "positive_integer PosInf = False"
| "positive_integer NegInf = False"

text \<open>
  A scalar of a parsed JSON document, as the \<open>id\<close> of a record or \<open>total_pages\<close> is
  one: \<open>SNull\<close> also stands for a field that is not there.
\<close>

datatype jval = SNull | SBool bool | SNum rat | SStr string

fun truthy_jval :: "jval \<Rightarrow> bool" where
  "truthy_jval SNull = False"
| "truthy_jval (SBool b) = b"
| "truthy_jval (SNum r) = (r \<noteq> 0)"
| "truthy_jval (SStr s) = (s \<noteq> [])"

text \<open>
  \<^verbatim>\<open>Number(v)\<close>. The conversion of a string, which reads decimal, hexadecimal and
  exponent notation, is the parameter \<open>num\<close>.
\<close>

fun Number :: "(string \<Rightarrow> jsnum) \<Rightarrow> jval \<Rightarrow> jsnum" where
  "Number num SNull = Num 0"
| "Number num (SBool b) = Num (if b then 1 else 0)"
| "Number num (SNum r) = Num r"
| "Number num (SStr s) = num s"

text \<open>Decimal rendering of an integer, as a template literal does it.\<close>

definition digit_char :: "nat \<Rightarrow> char" where
  "digit_char d = ''0123456789'' ! d"

fun show_nat :: "nat \<Rightarrow> string" where
  "show_nat n = (if n < 10 then [digit_char n] else show_nat (n div 10) @ [digit_char (n mod 10)])"

definition show_int :: "int \<Rightarrow> string" where
  "show_int i = (if i < 0 then ''-'' @ show_nat (nat (- i)) else show_nat (nat i))"

section \<open>Catalog synchronizer\<close>

text \<open>
  \<^verbatim>\<open>this.map\<close> is a \<^verbatim>\<open>Map\<close> from strings to numbers.
  \<^verbatim>\<open>
  getId(skuText) {
    if (!skuText) return undefined;
    const key = String(skuText).trim();
    return this.map.get(key) ?? this.map.get(key.toUpperCase()) ?? this.map.get(key.toLowerCase());
  }
  \<close>
\<close>

type_synonym skumap = "string \<rightharpoonup> jsnum"

definition getId :: "skumap \<Rightarrow> string \<Rightarrow> jsnum option" where
  "getId m skuText =
     (if skuText = [] then None
      else
        let key = trim skuText
        in (case m key of
              Some v \<Rightarrow> Some v
            | None \<Rightarrow>
                (case m (toUpperCase key) of
                   Some v \<Rightarrow> Some v
                 | None \<Rightarrow> m (toLowerCase key))))"

text \<open>
  A record of the seed list or of a product's \<open>skus\<close>: its \<open>sku\<close> is a string or is
  missing, its \<open>id\<close> is a JSON scalar. A record that is itself \<open>null\<close> has both missing.
\<close>

record sku_rec =
  rec_sku :: "string option"
  rec_id :: jval

text \<open>
  The seed file's content after \<^verbatim>\<open>JSON.parse\<close>: an array of records, an object from
  codes to ids, or anything else. Step 1 of \<^verbatim>\<open>bootstrap\<close>:
  \<^verbatim>\<open>
  if (Array.isArray(raw)) {
    raw.forEach((r) => {
      if (r && r.sku && r.id) this.map.set(String(r.sku).trim(), Number(r.id));
    });
  } else if (raw && typeof raw === 'object') {
    for (const [sku, id] of Object.entries(raw)) this.map.set(String(sku).trim(), Number(id));
  }
  \<close>
  A file that is missing or does not parse (\<open>None\<close>) leaves the map as it is.
\<close>

datatype seed = SeedArray "sku_rec list" | SeedObject "(string \<times> jval) list" | SeedOther

definition seed_record :: "(string \<Rightarrow> jsnum) \<Rightarrow> sku_rec \<Rightarrow> skumap \<Rightarrow> skumap" where
  "seed_record num r m =
     (case rec_sku r of
        None \<Rightarrow> m
      | Some code \<Rightarrow>
          if code \<noteq> [] \<and> truthy_jval (rec_id r) then m(trim code \<mapsto> Number num (rec_id r))
          else m)"

definition seed_entry :: "(string \<Rightarrow> jsnum) \<Rightarrow> string \<times> jval \<Rightarrow> skumap \<Rightarrow> skumap" where
  "seed_entry num e m = m(trim (fst e) \<mapsto> Number num (snd e))"

fun bootstrap_seed :: "(string \<Rightarrow> jsnum) \<Rightarrow> seed option \<Rightarrow> skumap \<Rightarrow> skumap" where
  "bootstrap_seed num None m = m"
| "bootstrap_seed num (Some (SeedArray rs)) m = fold (seed_record num) rs m"
| "bootstrap_seed num (Some (SeedObject es)) m = fold (seed_entry num) es m"
| "bootstrap_seed num (Some SeedOther) m = m"

section \<open>Upstream HTTP\<close>

text \<open>
  A call of \<^verbatim>\<open>fetch\<close> either rejects (a network failure, with its message) or
  resolves to a response: the status, the body as text, and what \<^verbatim>\<open>res.json()\<close>
  gives, which is the message of a parse error or the parsed document.
  \<^verbatim>\<open>res.ok\<close> holds for the statuses 200 to 299.
\<close>

datatype 'j fetch_result = Rejected string | Response nat string "string + 'j"

definition res_ok :: "nat \<Rightarrow> bool" where
  "res_ok st = (200 \<le> st \<and> st \<le> 299)"

definition BASE :: string where
  "BASE = ''https://api.dooki.com.br/v2''"

text \<open>
  A page of the catalog listing: \<open>data\<close>, the products, each given by the array of
  records found at \<^verbatim>\<open>p.skus.data\<close> or \<^verbatim>\<open>p.skus\<close> (empty when neither is an
  array), and \<^verbatim>\<open>meta.pagination.total_pages\<close>.
\<close>

type_synonym product = "sku_rec list"

record listing =
  lst_data :: "product list"
  lst_total_pages :: jval

text \<open>
  \<^verbatim>\<open>
  async function yampiGet(path) {
    const res = await fetch(`${BASE}${path}`, { headers: ... });
    if (!res.ok) throw new Error(`[Yampi GET ${res.status}] ${await res.text()}`);
    return res.json();
  }
  \<close>
  An exception is \<open>Inl\<close> of its message.
\<close>

definition yampiGet :: "(string \<Rightarrow> listing fetch_result) \<Rightarrow> string \<Rightarrow> string + listing" where
  "yampiGet fetch path =
     (case fetch (BASE @ path) of
        Rejected msg \<Rightarrow> Inl msg
      | Response st txt parsed \<Rightarrow>
          if \<not> res_ok st then Inl (''[Yampi GET '' @ show_nat st @ ''] '' @ txt)
          else parsed)"

section \<open>Hydration\<close>

text \<open>
  \<^verbatim>\<open>
  async hydrateOnce({ pageStart = 1, limit = 100, maxPages = 1000 } = {}) {
    let page = pageStart;
    let total = 0;
    for (;;) {
      const resp = await yampiGet(`/${this.alias}/catalog/products?include=skus&limit=${limit}&page=${page}`);
      const list = resp?.data || [];
      for (const p of list) {
        const skus = (p?.skus?.data) || p?.skus || [];
        if (Array.isArray(skus)) {
          for (const s of skus) {
            if (s?.sku && s?.id != null) {
              const key = String(s.sku).trim();
              const id = Number(s.id);
              this.map.set(key, id);
              this.map.set(key.toUpperCase(), id);
              this.map.set(key.toLowerCase(), id);
              total++;
            }
          }
        }
      }
      const totalPages = Number(resp?.meta?.pagination?.total_pages || page);
      if (!list.length || page >= totalPages || page - pageStart + 1 >= maxPages) break;
      page += 1;
    }
    return total;
  }
  \<close>
  The state of a run: the map, the counter, and the paths requested so far.
\<close>

record hydration =
  hmap :: skumap
  htotal :: nat
  hreqs :: "string list"

definition write_sku :: "(string \<Rightarrow> jsnum) \<Rightarrow> sku_rec \<Rightarrow> hydration \<Rightarrow> hydration" where
  "write_sku num s st =
     (case rec_sku s of
        None \<Rightarrow> st
      | Some code \<Rightarrow>
          if code \<noteq> [] \<and> rec_id s \<noteq> SNull then
            let key = trim code;
                idn = Number num (rec_id s)
            in st\<lparr>hmap := (hmap st)(key \<mapsto> idn, toUpperCase key \<mapsto> idn, toLowerCase key \<mapsto> idn),
                  htotal := htotal st + 1\<rparr>
          else st)"

definition write_page :: "(string \<Rightarrow> jsnum) \<Rightarrow> product list \<Rightarrow> hydration \<Rightarrow> hydration" where
  "write_page num list st = fold (\<lambda>p. fold (write_sku num) p) list st"

definition page_path :: "string \<Rightarrow> int \<Rightarrow> int \<Rightarrow> string" where
  "page_path shop limit page =
     ''/'' @ shop @ ''/catalog/products?include=skus&limit='' @ show_int limit
       @ ''&page='' @ show_int page"

definition total_pages_of :: "(string \<Rightarrow> jsnum) \<Rightarrow> listing \<Rightarrow> int \<Rightarrow> jsnum" where
  "total_pages_of num resp page =
     (if truthy_jval (lst_total_pages resp) then Number num (lst_total_pages resp)
      else Num (of_int page))"

definition stop_after :: "(string \<Rightarrow> jsnum) \<Rightarrow> listing \<Rightarrow> int \<Rightarrow> int \<Rightarrow> int \<Rightarrow> bool" where
  "stop_after num resp pageStart maxPages page =
     (lst_data resp = [] \<or> ge_num (of_int page) (total_pages_of num resp page)
        \<or> page - pageStart + 1 \<ge> maxPages)"

function hydrate_loop ::
  "(string \<Rightarrow> jsnum) \<Rightarrow> (string \<Rightarrow> listing fetch_result) \<Rightarrow> string \<Rightarrow> int \<Rightarrow> int \<Rightarrow> int
     \<Rightarrow> int \<Rightarrow> hydration \<Rightarrow> (string + nat) \<times> hydration" where
  "hydrate_loop num fetch shop limit pageStart maxPages page st =
     (let path = page_path shop limit page;
          st1 = st\<lparr>hreqs := hreqs st @ [path]\<rparr>
      in (case yampiGet fetch path of
            Inl msg \<Rightarrow> (Inl msg, st1)
          | Inr resp \<Rightarrow>
              let st2 = write_page num (lst_data resp) st1
              in if stop_after num resp pageStart maxPages page then (Inr (htotal st2), st2)
                 else hydrate_loop num fetch shop limit pageStart maxPages (page + 1) st2))"
  by pat_completeness auto
termination
  by (relation "measure (\<lambda>(num, fetch, shop, limit, pageStart, maxPages, page, st).
        nat (maxPages - (page - pageStart + 1)))")
     (auto simp: stop_after_def)

text \<open>
  \<open>hydrateOnce\<close> on the map \<open>m\<close>: the result (the exception's message or the count) and
  the state the run leaves, whose \<open>hmap\<close> is the new \<^verbatim>\<open>this.map\<close>.
\<close>

definition hydrateOnce ::
  "(string \<Rightarrow> jsnum) \<Rightarrow> (string \<Rightarrow> listing fetch_result) \<Rightarrow> string \<Rightarrow> int \<Rightarrow> int \<Rightarrow> int
     \<Rightarrow> skumap \<Rightarrow> (string + nat) \<times> hydration" where
  "hydrateOnce num fetch shop pageStart limit maxPages m =
     hydrate_loop num fetch shop limit pageStart maxPages pageStart
       \<lparr>hmap = m, htotal = 0, hreqs = []\<rparr>"

text \<open>The call every caller in the repository makes: \<^verbatim>\<open>hydrateOnce()\<close>, with the defaults.\<close>

definition hydrateOnce_default ::
  "(string \<Rightarrow> jsnum) \<Rightarrow> (string \<Rightarrow> listing fetch_result) \<Rightarrow> string \<Rightarrow> skumap
     \<Rightarrow> (string + nat) \<times> hydration" where
  "hydrateOnce_default num fetch shop m = hydrateOnce num fetch shop 1 100 1000 m"

text \<open>
  \<^verbatim>\<open>bootstrap\<close>: the seed, then one hydration whose failure is logged and swallowed
  (the timer that \<^verbatim>\<open>startAutoRefresh\<close> arms is not part of the model).
\<close>

definition bootstrap ::
  "(string \<Rightarrow> jsnum) \<Rightarrow> (string \<Rightarrow> listing fetch_result) \<Rightarrow> string \<Rightarrow> seed option \<Rightarrow> skumap
     \<Rightarrow> skumap" where
  "bootstrap num fetch shop sd m =
     hmap (snd (hydrateOnce_default num fetch shop (bootstrap_seed num sd m)))"

text \<open>
  For the invariant on stored identifiers: a JSON id that is a positive integer, a map all
  of whose values are positive integers, and an upstream all of whose parsed pages carry
  only such ids.
\<close>

fun positive_id :: "jval \<Rightarrow> bool" where
  "positive_id (SNum r) = (0 < r \<and> r = of_int \<lfloor>r\<rfloor>)"
| "positive_id SNull = False"
| "positive_id (SBool b) = False"
| "positive_id (SStr s) = False"

definition all_positive :: "skumap \<Rightarrow> bool" where
  "all_positive m = (\<forall>k v. m k = Some v \<longrightarrow> positive_integer v)"

definition positive_records :: "sku_rec list \<Rightarrow> bool" where
  "positive_records rs = list_all (\<lambda>s. positive_id (rec_id s)) rs"

definition positive_catalog :: "(string \<Rightarrow> listing fetch_result) \<Rightarrow> bool" where
  "positive_catalog fetch =
     (\<forall>url st txt lst. fetch url = Response st txt (Inr lst) \<longrightarrow>
        list_all positive_records (lst_data lst))"

section \<open>Quote cache\<close>

text \<open>
  A JSON document, as the upstream quote API answers and as the cache keeps it. An
  object is the list of its properties in enumeration order.
\<close>

datatype json = JNull | JBool bool | JNum rat | JStr string | JArr "json list"
  | JObj "(string \<times> json) list"

fun truthy_json :: "json \<Rightarrow> bool" where
  "truthy_json JNull = False"
| "truthy_json (JBool b) = b"
| "truthy_json (JNum r) = (r \<noteq> 0)"
| "truthy_json (JStr s) = (s \<noteq> [])"
| "truthy_json (JArr xs) = True"
| "truthy_json (JObj kvs) = True"

text \<open>
  \<^verbatim>\<open>quoteCache\<close> is a \<^verbatim>\<open>Map\<close> from the serialised request to \<^verbatim>\<open>{ at, data }\<close>;
  times are milliseconds, and \<open>TTL\<close> is \<^verbatim>\<open>Number(CACHE_TTL_MS) || 300000\<close>.
  \<^verbatim>\<open>
  function getFromCache(key) {
    const item = quoteCache.get(key);
    if (!item) return null;
    const { at, data } = item;
    if (Date.now() - at > TTL) { quoteCache.delete(key); return null; }
    return data;
  }
  function setCache(key, data) {
    quoteCache.set(key, { at: Date.now(), data });
  }
  \<close>
  \<open>getFromCache\<close> returns a JavaScript value, \<open>JNull\<close> for \<^verbatim>\<open>null\<close>, and the cache.
\<close>

record cache_item =
  stored_at :: int
  payload :: json

type_synonym quote_cache = "string \<rightharpoonup> cache_item"

definition getFromCache :: "int \<Rightarrow> int \<Rightarrow> quote_cache \<Rightarrow> string \<Rightarrow> json \<times> quote_cache" where
  "getFromCache TTL now c key =
     (case c key of
        None \<Rightarrow> (JNull, c)
      | Some item \<Rightarrow>
          if now - stored_at item > TTL then (JNull, c(key := None))
          else (payload item, c))"

definition setCache :: "int \<Rightarrow> quote_cache \<Rightarrow> string \<Rightarrow> json \<Rightarrow> quote_cache" where
  "setCache now c key d = c(key \<mapsto> \<lparr>stored_at = now, payload = d\<rparr>)"

text \<open>
  The other variant of the server reads the cache in line:
  \<^verbatim>\<open>
  const cached = quoteCache.get(key);
  if (cached && (Date.now() - cached.at) < (Number(CACHE_TTL_MS)||300000)) {
    return res.json({ data: cached.data, cached: true });
  }
  \<close>
  \<open>inline_get\<close> is the payload that branch answers with, if it is taken.
\<close>

definition inline_get :: "int \<Rightarrow> int \<Rightarrow> quote_cache \<Rightarrow> string \<Rightarrow> json option" where
  "inline_get TTL now c key =
     (case c key of
        None \<Rightarrow> None
      | Some item \<Rightarrow> if now - stored_at item < TTL then Some (payload item) else None)"

section \<open>Upstream quote call\<close>

text \<open>
  \<^verbatim>\<open>
  export async function calcularFreteYampi({ alias, zipcode, total, skusIds, quantities,
      origin = 'cart_drawer', utm_email, orderId }) {
    const url = `${BASE}/${alias}/logistics/shipping-costs`;
    const body = { zipcode, total, origin, utm_email, skus_ids: skusIds, quantities };
    if (orderId != null) body.order_id = orderId;
    const res = await fetch(url, { method: 'POST', headers: ..., body: JSON.stringify(body) });
    if (!res.ok) {
      const text = await res.text();
      throw new Error(`Yampi ${res.status}: ${text}`);
    }
    const json = await res.json();
    return json?.data ?? json;
  }
  \<close>
  The result is paired with the requests made.
\<close>

record quote_args =
  arg_alias :: string
  arg_zipcode :: string
  arg_total :: "jsnum option"
  arg_skusIds :: "jsnum list"
  arg_quantities :: "jsnum list"
  arg_origin :: "string option"
  arg_utm_email :: "string option"
  arg_orderId :: "jsnum option"

record quote_body =
  zipcode :: string
  total :: "jsnum option"
  origin :: string
  utm_email :: "string option"
  skus_ids :: "jsnum list"
  quantities :: "jsnum list"
  order_id :: "jsnum option"

type_synonym quote_request = "string \<times> quote_body"

type_synonym quote_fetch = "quote_request \<Rightarrow> json fetch_result"

definition quote_request_of :: "quote_args \<Rightarrow> quote_request" where
  "quote_request_of a =
     (BASE @ ''/'' @ arg_alias a @ ''/logistics/shipping-costs'',
      \<lparr>zipcode = arg_zipcode a, total = arg_total a,
       origin = (case arg_origin a of None \<Rightarrow> ''cart_drawer'' | Some orig \<Rightarrow> orig),
       utm_email = arg_utm_email a, skus_ids = arg_skusIds a,
       quantities = arg_quantities a, order_id = arg_orderId a\<rparr>)"

text \<open>\<^verbatim>\<open>json?.data ?? json\<close>\<close>

definition data_or_self :: "json \<Rightarrow> json" where
  "data_or_self j =
     (case j of
        JObj kvs \<Rightarrow>
          (case map_of kvs ''data'' of
             None \<Rightarrow> j
           | Some d \<Rightarrow> if d = JNull then j else d)
      | _ \<Rightarrow> j)"

definition calcularFreteYampi ::
  "quote_fetch \<Rightarrow> quote_args \<Rightarrow> (string + json) \<times> quote_request list" where
  "calcularFreteYampi fetch a =
     (let rq = quote_request_of a
      in (case fetch rq of
            Rejected msg \<Rightarrow> (Inl msg, [rq])
          | Response st txt parsed \<Rightarrow>
              if \<not> res_ok st then (Inl (''Yampi '' @ show_nat st @ '': '' @ txt), [rq])
              else (case parsed of
                      Inl msg \<Rightarrow> (Inl msg, [rq])
                    | Inr j \<Rightarrow> (Inr (data_or_self j), [rq]))))"

section \<open>Quote orchestrator\<close>

text \<open>
  The handler of \<^verbatim>\<open>app.all(proxyPath, ...)\<close>, in its two variants. What it reads from
  outside is explicit: the configuration taken from the environment variables, the
  library functions (the keyed digest, \<^verbatim>\<open>Number\<close> on strings, \<^verbatim>\<open>JSON.stringify\<close>
  on the cache key's object, \<^verbatim>\<open>fetch\<close>), the catalog map, the clock at the cache
  read and at the cache write, and the cache. \<^verbatim>\<open>req.body\<close> is an object, as the JSON
  body parser leaves it. The model is of the handler function; which route reaches it is
  the router's business (in \<^verbatim>\<open>server.js\<close> an earlier route on the literal path
  \<^verbatim>\<open>/apps/shipping-quotes\<close> answers first when the proxy path has its default value).
  The result is the response, the cache afterwards, and the upstream calls made.
\<close>

record config =
  cfg_disable_check :: string
  cfg_secret :: "string option"
  cfg_alias :: string
  cfg_TTL :: int

type_synonym key_object = "string \<times> jsnum list \<times> jsnum list \<times> jsnum option"

record env =
  env_hmac :: "string \<Rightarrow> string \<Rightarrow> string"
  env_num :: "string \<Rightarrow> jsnum"
  env_stringify :: "key_object \<Rightarrow> string"
  env_fetch :: quote_fetch

record request =
  req_method :: string
  req_query :: jsobject
  req_body :: jsobject

datatype resp_body = ErrorBody string | DataBody json bool

record outcome =
  out_status :: nat
  out_body :: resp_body
  out_cache :: quote_cache
  out_calls :: "quote_request list"

text \<open>
  Step 1:
  \<^verbatim>\<open>
  if (DISABLE_PROXY_SIGNATURE_CHECK !== 'true') {
    const ok = verifyShopifyProxy(req.query, SHOPIFY_API_SECRET);
    if (!ok) return res.status(401).json({ error: 'Invalid proxy signature' });
  }
  \<close>
\<close>

definition signature_ok :: "config \<Rightarrow> env \<Rightarrow> request \<Rightarrow> bool" where
  "signature_ok cfg e req =
     (if cfg_disable_check cfg \<noteq> ''true''
      then verifyShopifyProxy (env_hmac e) (Some (req_query req)) (cfg_secret cfg)
      else True)"

text \<open>\<^verbatim>\<open>req.method === 'GET' ? req.query.k : req.body.k\<close>\<close>

definition param :: "request \<Rightarrow> string \<Rightarrow> pval option" where
  "param req k =
     (if req_method req = ''GET'' then map_of (req_query req) k else map_of (req_body req) k)"

text \<open>\<^verbatim>\<open>a ?? b\<close>\<close>

definition nullish :: "'a option \<Rightarrow> 'a option \<Rightarrow> 'a option" where
  "nullish a b = (case a of None \<Rightarrow> b | Some v \<Rightarrow> Some v)"

definition is_digit :: "char \<Rightarrow> bool" where
  "is_digit c = (CHR ''0'' \<le> c \<and> c \<le> CHR ''9'')"

text \<open>\<^verbatim>\<open>String((...cep) || '').replace(/\D/g, '')\<close>\<close>

definition parse_cep :: "request \<Rightarrow> string" where
  "parse_cep req =
     filter is_digit
       (case param req ''cep'' of
          None \<Rightarrow> []
        | Some v \<Rightarrow> if truthy v then to_String v else [])"

text \<open>\<^verbatim>\<open>String.prototype.split(',')\<close>\<close>

fun split_comma :: "string \<Rightarrow> string list" where
  "split_comma [] = [[]]"
| "split_comma (c # cs) =
     (if c = CHR '','' then [] # split_comma cs
      else (case split_comma cs of
              [] \<Rightarrow> [[c]]
            | w # ws \<Rightarrow> (c # w) # ws))"

text \<open>
  \<^verbatim>\<open>
  const toArr = (v) => Array.isArray(v) ? v
    : (v == null ? [] : String(v).split(',').map(s => s.trim()).filter(Boolean));
  \<close>
\<close>

fun toArr :: "pval option \<Rightarrow> string list" where
  "toArr (Some (Arr xs)) = xs"
| "toArr None = []"
| "toArr (Some (Str s)) = filter (\<lambda>w. w \<noteq> []) (map trim (split_comma s))"

text \<open>\<^verbatim>\<open>/^\d+$/.test(s)\<close>\<close>

definition all_digits :: "string \<Rightarrow> bool" where
  "all_digits s = (s \<noteq> [] \<and> list_all is_digit s)"

text \<open>
  Step 3, the resolution loop; \<open>Inl s\<close> is the early return that names \<open>s\<close>.
  \<^verbatim>\<open>
  const ids = [];
  for (const s of skusArr) {
    if (/^\d+$/.test(s)) {
      ids.push(Number(s));
    } else {
      const id = skuMap.getId(s);
      if (!id) return res.status(400).json({ error: `SKU sem ID cadastrado na Yampi: ${s}` });
      ids.push(id);
    }
  }
  \<close>
\<close>

fun resolve_ids :: "(string \<Rightarrow> jsnum) \<Rightarrow> skumap \<Rightarrow> string list \<Rightarrow> jsnum list \<Rightarrow> string + jsnum list" where
  "resolve_ids num m [] ids = Inr ids"
| "resolve_ids num m (s # ss) ids =
     (if all_digits s then resolve_ids num m ss (ids @ [num s])
      else (case getId m s of
              None \<Rightarrow> Inl s
            | Some v \<Rightarrow> if falsy_num v then Inl s else resolve_ids num m ss (ids @ [v])))"

definition msg_signature :: string where
  "msg_signature = ''Invalid proxy signature''"

text \<open>The message of the postal code check; its accented letter is the code unit \<open>0xE1\<close>.\<close>

definition msg_cep :: string where
  "msg_cep = ''CEP inv'' @ [CHR 0xE1] @ ''lido''"

definition msg_items :: string where
  "msg_items = ''Itens ausentes ou mal formatados''"

definition msg_unmapped :: "string \<Rightarrow> string" where
  "msg_unmapped s = ''SKU sem ID cadastrado na Yampi: '' @ s"

text \<open>
  Steps 1 to 3, which the two variants share word for word: an early response, or the
  postal code, the total, the identifiers and the quantities.
\<close>

datatype prepared = Reject nat string | Ready string "jsnum option" "jsnum list" "jsnum list"

definition prepare :: "config \<Rightarrow> env \<Rightarrow> skumap \<Rightarrow> request \<Rightarrow> prepared" where
  "prepare cfg e m req =
     (if \<not> signature_ok cfg e req then Reject 401 msg_signature
      else
        let cep = parse_cep req
        in if length cep \<noteq> 8 then Reject 400 msg_cep
           else
             let totalv = map_option (\<lambda>v. env_num e (to_String v)) (param req ''total'');
                 skusRaw = nullish (param req ''skus'') (param req ''skus_ids'');
                 quantitiesRaw = param req ''quantities'';
                 skusArr = toArr skusRaw;
                 qtyArr = map (env_num e) (toArr quantitiesRaw)
             in if skusArr = [] \<or> length skusArr \<noteq> length qtyArr then Reject 400 msg_items
                else (case resolve_ids (env_num e) m skusArr [] of
                        Inl s \<Rightarrow> Reject 400 (msg_unmapped s)
                      | Inr ids \<Rightarrow> Ready cep totalv ids qtyArr))"

definition makeCacheKey ::
  "env \<Rightarrow> string \<Rightarrow> jsnum list \<Rightarrow> jsnum list \<Rightarrow> jsnum option \<Rightarrow> string" where
  "makeCacheKey e cep ids qtys totalv = env_stringify e (cep, ids, qtys, totalv)"

definition handler_args :: "config \<Rightarrow> string \<Rightarrow> jsnum option \<Rightarrow> jsnum list \<Rightarrow> jsnum list \<Rightarrow> quote_args" where
  "handler_args cfg cep totalv ids qtys =
     \<lparr>arg_alias = cfg_alias cfg, arg_zipcode = cep, arg_total = totalv, arg_skusIds = ids,
      arg_quantities = qtys, arg_origin = None, arg_utm_email = None,
      arg_orderId = Some (Num 129339217)\<rparr>"

text \<open>
  The variant with \<open>getFromCache\<close> and \<open>setCache\<close>. Steps 4 and 5:
  \<^verbatim>\<open>
    const key = makeCacheKey({ cep, ids, qtys: qtyArr, total });
    const cached = getFromCache(key);
    if (cached) return res.json({ data: cached, cached: true });
    const data = await calcularFreteYampi({ alias: YAMPI_ALIAS, zipcode: cep, total,
      skusIds: ids, quantities: qtyArr, orderId: 129339217 });
    setCache(key, data);
    return res.json({ data });
  } catch (e) {
    return res.status(500).json({ error: e.message });
  }
  \<close>
\<close>

definition proxy_handler_cached ::
  "config \<Rightarrow> env \<Rightarrow> skumap \<Rightarrow> int \<Rightarrow> int \<Rightarrow> quote_cache \<Rightarrow> request \<Rightarrow> outcome" where
  "proxy_handler_cached cfg e m now_get now_set c req =
     (case prepare cfg e m req of
        Reject st msg \<Rightarrow>
          \<lparr>out_status = st, out_body = ErrorBody msg, out_cache = c, out_calls = []\<rparr>
      | Ready cep totalv ids qtys \<Rightarrow>
          let key = makeCacheKey e cep ids qtys totalv;
              got = getFromCache (cfg_TTL cfg) now_get c key;
              cached = fst got;
              c1 = snd got
          in if truthy_json cached
             then \<lparr>out_status = 200, out_body = DataBody cached True, out_cache = c1,
                    out_calls = []\<rparr>
             else (case calcularFreteYampi (env_fetch e) (handler_args cfg cep totalv ids qtys) of
                     (Inl msg, calls) \<Rightarrow>
                       \<lparr>out_status = 500, out_body = ErrorBody msg, out_cache = c1,
                        out_calls = calls\<rparr>
                   | (Inr d, calls) \<Rightarrow>
                       \<lparr>out_status = 200, out_body = DataBody d False,
                        out_cache = setCache now_set c1 key d, out_calls = calls\<rparr>))"

text \<open>
  The variant of \<^verbatim>\<open>server.js\<close>, which reads the cache in line and stores the answer
  as a list:
  \<^verbatim>\<open>
    const key = cacheKey({ cep, ids, qtys: qtyArr, total });
    const cached = quoteCache.get(key);
    if (cached && (Date.now() - cached.at) < (Number(CACHE_TTL_MS)||300000)) {
      return res.json({ data: cached.data, cached: true });
    }
    const raw = await calcularFreteYampi({ ..., orderId: ORDER_ID_HARDCODED });
    const data = Array.isArray(raw) ? raw
      : (raw && typeof raw === 'object' ? Object.values(raw) : []);
    quoteCache.set(key, { at: Date.now(), data });
    return res.json({ data });
  } catch (e) {
    return res.status(500).json({ error: e.message });
  }
  \<close>
\<close>

fun as_list :: "json \<Rightarrow> json" where
  "as_list (JArr xs) = JArr xs"
| "as_list (JObj kvs) = JArr (map snd kvs)"
| "as_list j = JArr []"

definition proxy_handler_inline ::
  "config \<Rightarrow> env \<Rightarrow> skumap \<Rightarrow> int \<Rightarrow> int \<Rightarrow> quote_cache \<Rightarrow> request \<Rightarrow> outcome" where
  "proxy_handler_inline cfg e m now_get now_set c req =
     (case prepare cfg e m req of
        Reject st msg \<Rightarrow>
          \<lparr>out_status = st, out_body = ErrorBody msg, out_cache = c, out_calls = []\<rparr>
      | Ready cep totalv ids qtys \<Rightarrow>
          let key = makeCacheKey e cep ids qtys totalv
          in (case inline_get (cfg_TTL cfg) now_get c key of
                Some d \<Rightarrow>
                  \<lparr>out_status = 200, out_body = DataBody d True, out_cache = c, out_calls = []\<rparr>
              | None \<Rightarrow>
                  (case calcularFreteYampi (env_fetch e) (handler_args cfg cep totalv ids qtys) of
                     (Inl msg, calls) \<Rightarrow>
                       \<lparr>out_status = 500, out_body = ErrorBody msg, out_cache = c,
                        out_calls = calls\<rparr>
                   | (Inr raw, calls) \<Rightarrow>
                       \<lparr>out_status = 200, out_body = DataBody (as_list raw) False,
                        out_cache = c(key \<mapsto> \<lparr>stored_at = now_set, payload = as_list raw\<rparr>),
                        out_calls = calls\<rparr>)))"

section \<open>Sample collaborators for the examples\<close>

text \<open>
  Concrete stand-ins for the library functions, used only where a theorem is applied to a
  concrete request: a digest that repeats the last code unit of the message 64 times, a
  \<open>Number\<close> that reads unsigned decimal numerals, and a serialiser of the key's object.
\<close>

definition sample_digest :: "string \<Rightarrow> string \<Rightarrow> string" where
  "sample_digest k msg = replicate 64 (last (CHR ''0'' # msg))"

definition sample_num :: "string \<Rightarrow> jsnum" where
  "sample_num s =
     (if all_digits s then Num (of_nat (fold (\<lambda>c n. 10 * n + (of_char c - 48)) s 0)) else NaN)"

definition sample_stringify :: "key_object \<Rightarrow> string" where
  "sample_stringify k = fst k @ '':'' @ show_nat (length (fst (snd k)))"

definition sample_env :: "quote_fetch \<Rightarrow> env" where
  "sample_env f =
     \<lparr>env_hmac = sample_digest, env_num = sample_num, env_stringify = sample_stringify,
      env_fetch = f\<rparr>"

definition sample_config :: "string \<Rightarrow> config" where
  "sample_config flag =
     \<lparr>cfg_disable_check = flag, cfg_secret = Some ''shh'', cfg_alias = ''loja'',
      cfg_TTL = 300000\<rparr>"

text \<open>
  Two upstream catalogs: one that answers every page with the same product and claims
  5000 pages, and one whose first page (of three) is good and whose every other page
  fails with status 503.
\<close>

definition sample_page :: "rat \<Rightarrow> listing" where
  "sample_page n =
     \<lparr>lst_data = [[\<lparr>rec_sku = Some ''ABC-1'', rec_id = SNum 42\<rparr>]], lst_total_pages = SNum n\<rparr>"

definition endless_catalog :: "string \<Rightarrow> listing fetch_result" where
  "endless_catalog url = Response 200 [] (Inr (sample_page 5000))"

definition failing_catalog :: "string \<Rightarrow> listing fetch_result" where
  "failing_catalog url =
     (if url = BASE @ page_path ''loja'' 100 1 then Response 200 [] (Inr (sample_page 3))
      else Response 503 ''unavailable'' (Inl ''not JSON''))"




text \<open>
  A signed request for the postal code \<open>01001-000\<close> and two items, one by its code and
  one by its numeric identifier; the same request with a postal code of seven digits and
  no signature; a request whose second item is listed in the catalog with the identifier
  0; and two upstream quote services, one that is down and one that answers.
\<close>

definition sample_request :: request where
  "sample_request =
     \<lparr>req_method = ''GET'',
      req_query = [(''cep'', Str ''01001-000''), (''skus'', Str ''SKU1,99''),
                   (''quantities'', Str ''2,1''),
                   (''signature'', Str (replicate 64 (CHR ''9'')))],
      req_body = []\<rparr>"

definition short_cep_request :: request where
  "short_cep_request =
     \<lparr>req_method = ''GET'',
      req_query = [(''cep'', Str ''0100-100''), (''skus'', Str ''SKU1,99''),
                   (''quantities'', Str ''2,1'')],
      req_body = []\<rparr>"

definition zero_id_request :: request where
  "zero_id_request =
     \<lparr>req_method = ''GET'',
      req_query = [(''cep'', Str ''01001-000''), (''skus'', Str ''SKU1,ZERO''),
                   (''quantities'', Str ''2,1'')],
      req_body = []\<rparr>"

definition sample_catalog :: skumap where
  "sample_catalog = [''SKU1'' \<mapsto> Num 501, ''ZERO'' \<mapsto> Num 0]"

definition down_quotes :: quote_fetch where
  "down_quotes rq = Response 503 ''unavailable'' (Inl ''not JSON'')"

definition up_quotes :: quote_fetch where
  "up_quotes rq = Response 200 [] (Inr (JObj [(''data'', JArr [JStr ''PAC''])]))"

section \<open>Signature verifier: properties\<close>

lemma map_of_rest_params:
  "k \<noteq> ''signature'' \<Longrightarrow> map_of (rest_params q) k = map_of q k"
  unfolding rest_params_def by (induction q) auto

lemma keys_rest_params:
  "set (map fst (rest_params q)) = fst ` set q - {''signature''}"
  unfolding rest_params_def by auto

lemma distinct_rest_params:
  "distinct (map fst q) \<Longrightarrow> distinct (map fst (rest_params q))"
  unfolding rest_params_def by (simp add: distinct_map_filter)

lemma sorted_keys_rest_params:
  assumes "distinct (map fst q)"
  shows "sort (map fst (rest_params q)) = sorted_list_of_set (fst ` set q - {''signature''})"
proof -
  have "sort (map fst (rest_params q)) = sorted_list_of_set (set (map fst (rest_params q)))"
    using distinct_rest_params [OF assms]
    by (simp only: sorted_list_of_set_sort_remdups distinct_remdups_id)
  then show ?thesis
    by (simp only: keys_rest_params)
qed

lemma signing_base_canonical:
  assumes "distinct (map fst q)"
  shows "signing_base (rest_params q) = canonical_payload q"
proof -
  let ?ks = "sorted_list_of_set (fst ` set q - {''signature''})"
  have "render_pair (rest_params q) k = k @ ''='' @ to_String (the (map_of q k))"
    if "k \<in> set ?ks" for k
  proof -
    from that have ne: "k \<noteq> ''signature''" and "k \<in> fst ` set q" by auto
    then obtain v where "map_of q k = Some v"
      by (metis domD dom_map_of_conv_image_fst)
    with ne show ?thesis
      by (simp add: render_pair_def map_of_rest_params)
  qed
  then have "map (render_pair (rest_params q)) ?ks
      = map (\<lambda>k. k @ ''='' @ to_String (the (map_of q k))) ?ks"
    by (rule map_cong [OF refl])
  then show ?thesis
    by (simp only: signing_base_def canonical_payload_def sorted_keys_rest_params [OF assms])
qed

text \<open>
  Claim C1. Whatever the parameters and the secret, \<open>verifyShopifyProxy\<close> returns a
  boolean (the model is a total function: no branch of the source throws); that boolean is
  false when the secret is absent or empty and when there is no \<open>signature\<close> field
  (also when there is no query object at all); otherwise, for a string-valued signature,
  it is true exactly when the digest, keyed by the secret, of the canonical payload equals
  the signature (a signature that is an array equals no digest). The digest function is any function that renders 64 hexadecimal digits,
  as the hex form of a 256-bit digest does.
\<close>

theorem verifyShopifyProxy_spec:
  assumes hex: "\<And>k m. length (hmac k m) = 64"
    and obj: "distinct (map fst q)"
  shows "(secret = None \<or> secret = Some [] \<longrightarrow> verifyShopifyProxy hmac (Some q) secret = False)
    \<and> (map_of q ''signature'' = None \<longrightarrow> verifyShopifyProxy hmac (Some q) secret = False)
    \<and> verifyShopifyProxy hmac None secret = False
    \<and> (\<forall>xs. map_of q ''signature'' = Some (Arr xs) \<longrightarrow>
          verifyShopifyProxy hmac (Some q) secret = False)
    \<and> (\<forall>sec sg. secret = Some sec \<and> sec \<noteq> [] \<and> map_of q ''signature'' = Some (Str sg) \<longrightarrow>
          verifyShopifyProxy hmac (Some q) secret = (hmac sec (canonical_payload q) = sg))"
proof (intro conjI allI impI)
  assume "secret = None \<or> secret = Some []"
  then show "verifyShopifyProxy hmac (Some q) secret = False"
    by (auto simp: verifyShopifyProxy_def)
next
  assume "map_of q ''signature'' = None"
  then show "verifyShopifyProxy hmac (Some q) secret = False"
    by (simp add: verifyShopifyProxy_def split: option.splits)
next
  show "verifyShopifyProxy hmac None secret = False"
    by (simp add: verifyShopifyProxy_def split: option.splits)
next
  fix xs
  assume "map_of q ''signature'' = Some (Arr xs)"
  then show "verifyShopifyProxy hmac (Some q) secret = False"
    by (simp add: verifyShopifyProxy_def split: option.splits)
next
  fix sec sg
  assume a: "secret = Some sec \<and> sec \<noteq> [] \<and> map_of q ''signature'' = Some (Str sg)"
  show "verifyShopifyProxy hmac (Some q) secret = (hmac sec (canonical_payload q) = sg)"
  proof (cases "sg = []")
    case True
    have "hmac sec (canonical_payload q) \<noteq> []"
      using hex [of sec "canonical_payload q"] by auto
    with a True show ?thesis
      by (simp add: verifyShopifyProxy_def)
  next
    case False
    with a show ?thesis
      by (simp add: verifyShopifyProxy_def signing_base_canonical [OF obj])
  qed
qed

theorem verifyShopifyProxy_spec_witness:
  "verifyShopifyProxy sample_digest
     (Some [(''skus'', Arr [''A'', ''B'']), (''cep'', Str ''01001000''),
            (''signature'', Str (replicate 64 (CHR ''B'')))]) (Some ''shh'') = True
   \<and> verifyShopifyProxy sample_digest
     (Some [(''skus'', Arr [''A'', ''B'']), (''cep'', Str ''01001000''),
            (''signature'', Str (replicate 64 (CHR ''B'')))]) None = False
   \<and> canonical_payload [(''skus'', Arr [''A'', ''B'']), (''cep'', Str ''01001000''),
            (''signature'', Str (replicate 64 (CHR ''B'')))] = ''cep=01001000skus=A,B''"
proof -
  let ?q = "[(''skus'', Arr [''A'', ''B'']), (''cep'', Str ''01001000''),
            (''signature'', Str (replicate 64 (CHR ''B'')))]"
  have hex: "\<And>k m. length (sample_digest k m) = 64"
    by (simp add: sample_digest_def)
  have obj: "distinct (map fst ?q)"
    by simp
  have cp: "canonical_payload ?q = ''cep=01001000skus=A,B''"
    by (simp add: canonical_payload_def insert_Diff_if)
  have dg: "sample_digest ''shh'' ''cep=01001000skus=A,B'' = replicate 64 (CHR ''B'')"
    by (simp add: sample_digest_def)
  from verifyShopifyProxy_spec [OF hex obj, of "Some ''shh''"]
       verifyShopifyProxy_spec [OF hex obj, of None]
  show ?thesis
    by (simp add: cp dg)
qed

section \<open>Quote cache: properties\<close>

lemma getFromCache_present:
  "c key = Some item \<Longrightarrow>
     getFromCache TTL now c key =
       (if now - stored_at item > TTL then (JNull, c(key := None)) else (payload item, c))"
  by (simp add: getFromCache_def)

lemma inline_get_present:
  "c key = Some item \<Longrightarrow>
     inline_get TTL now c key = (if now - stored_at item < TTL then Some (payload item) else None)"
  by (simp add: inline_get_def)

text \<open>
  Claim C2, as stated, fails for \<open>getFromCache\<close> at the boundary: an entry whose age
  equals \<open>TTL\<close> (here stored at time 0, read at time 300000, with \<open>TTL\<close> 300000) has an
  age that is not less than \<open>TTL\<close>, and \<open>getFromCache\<close> still returns its payload.
\<close>

theorem getFromCache_age_equals_TTL:
  "fst (getFromCache 300000 300000 (setCache 0 Map.empty ''k'' (JStr ''quote'')) ''k'')
     = JStr ''quote''
   \<and> \<not> ((300000::int) - 0 < 300000)"
  by (simp add: getFromCache_def setCache_def)

text \<open>
  Claim C2, amended. For every key, payload, cache and clock: \<open>setCache\<close> followed by
  \<open>getFromCache\<close> returns the payload unchanged, and keeps the entry, while the age
  \<open>now - storedAt\<close> is at most \<open>TTL\<close>; once the age exceeds \<open>TTL\<close> it returns
  \<^verbatim>\<open>null\<close> and deletes the entry. The in-line read of the other variant answers with
  the payload exactly while the age is less than \<open>TTL\<close>. The same holds for any entry
  the cache holds, however it got there.
\<close>

theorem cache_round_trip:
  "(now - t \<le> TTL \<longrightarrow>
      getFromCache TTL now (setCache t c key d) key = (d, setCache t c key d))
   \<and> (now - t > TTL \<longrightarrow>
      getFromCache TTL now (setCache t c key d) key = (JNull, (setCache t c key d)(key := None)))
   \<and> inline_get TTL now (setCache t c key d) key = (if now - t < TTL then Some d else None)
   \<and> (\<forall>item. c key = Some item \<and> now - stored_at item > TTL \<longrightarrow>
         fst (getFromCache TTL now c key) = JNull)
   \<and> (\<forall>item. c key = Some item \<and> now - stored_at item \<ge> TTL \<longrightarrow>
         inline_get TTL now c key = None)"
proof -
  have stored: "setCache t c key d key = Some \<lparr>stored_at = t, payload = d\<rparr>"
    by (simp add: setCache_def)
  show ?thesis
    using stored by (auto simp: getFromCache_present inline_get_present)
qed

theorem cache_round_trip_witness:
  "getFromCache 300000 299999 (setCache 0 Map.empty ''k'' (JStr ''quote'')) ''k''
     = (JStr ''quote'', setCache 0 Map.empty ''k'' (JStr ''quote''))
   \<and> fst (getFromCache 300000 300001 (setCache 0 Map.empty ''k'' (JStr ''quote'')) ''k'') = JNull
   \<and> inline_get 300000 300000 (setCache 0 Map.empty ''k'' (JStr ''quote'')) ''k'' = None
   \<and> inline_get 300000 299999 (setCache 0 Map.empty ''k'' (JStr ''quote'')) ''k''
        = Some (JStr ''quote'')"
  using cache_round_trip [of 299999 0 300000 Map.empty "''k''" "JStr ''quote''"]
        cache_round_trip [of 300001 0 300000 Map.empty "''k''" "JStr ''quote''"]
        cache_round_trip [of 300000 0 300000 Map.empty "''k''" "JStr ''quote''"]
  by simp

section \<open>Catalog lookup: properties\<close>

lemma getId_nonempty:
  "skuText \<noteq> [] \<Longrightarrow>
     getId m skuText =
       (case m (trim skuText) of
          Some v \<Rightarrow> Some v
        | None \<Rightarrow>
            (case m (toUpperCase (trim skuText)) of
               Some v \<Rightarrow> Some v
             | None \<Rightarrow> m (toLowerCase (trim skuText))))"
  by (simp add: getId_def Let_def)

lemma hmap_write_sku:
  "code \<noteq> [] \<Longrightarrow> idv \<noteq> SNull \<Longrightarrow>
     hmap (write_sku num \<lparr>rec_sku = Some code, rec_id = idv\<rparr> st) =
       (hmap st)(trim code \<mapsto> Number num idv, toUpperCase (trim code) \<mapsto> Number num idv,
                 toLowerCase (trim code) \<mapsto> Number num idv)"
  by (simp add: write_sku_def Let_def)

lemma trim_samples:
  "trim ''abc-1'' = ''abc-1''" "trim ''ABC-1'' = ''ABC-1''" "trim '' Abc-1 '' = ''Abc-1''"
  by (simp_all add: trim_def is_space_def)

lemma case_samples:
  "toUpperCase ''ABC-1'' = ''ABC-1''" "toLowerCase ''ABC-1'' = ''abc-1''"
  "toUpperCase ''Abc-1'' = ''ABC-1''"
  by (simp_all add: toUpperCase_def toLowerCase_def lower_letters_def upper_letters_def)

text \<open>
  Claim C3, as stated, fails on the empty input: \<open>getId\<close> returns \<^verbatim>\<open>undefined\<close>
  for it before any lookup. Hydrating a record whose code is one blank writes the key
  \<open>''''\<close> (the code is truthy, and trims to the empty string); the exact trimmed form of
  the empty input is then in the mapping, and \<open>getId\<close> still returns absent.
\<close>

theorem getId_empty_input_absent:
  "hmap (write_sku sample_num \<lparr>rec_sku = Some '' '', rec_id = SNum 7\<rparr>
           \<lparr>hmap = Map.empty, htotal = 0, hreqs = []\<rparr>) (trim '''') = Some (Num 7)
   \<and> getId (hmap (write_sku sample_num \<lparr>rec_sku = Some '' '', rec_id = SNum 7\<rparr>
           \<lparr>hmap = Map.empty, htotal = 0, hreqs = []\<rparr>)) '''' = None"
  by (simp add: write_sku_def getId_def trim_def is_space_def Let_def toUpperCase_def
      toLowerCase_def)

text \<open>
  Claim C3, amended. On every non-empty input, \<open>getId\<close> trims it and returns the
  identifier found under the exact trimmed form, else the one under its upper-cased form,
  else the one under its lower-cased form, and absent when none of the three is a key; on
  the empty input it returns absent without a lookup. After hydration has written the
  entry with code \<open>ABC-1\<close> and id 42 into a catalog that holds nothing under the exact
  key \<open>Abc-1\<close> (a fresh catalog, for one), the lookups of \<open>abc-1\<close>, \<open>ABC-1\<close> and
  \<open> Abc-1 \<close> all return 42. In general, after hydration has written a code, every
  non-empty input that agrees with the code up to case and surrounding blanks finds the
  written id, as long as no other entry stands under the input's exact or upper-cased
  form.
\<close>

theorem getId_spec:
  "(skuText \<noteq> [] \<and> m (trim skuText) = Some v \<longrightarrow> getId m skuText = Some v)
   \<and> (skuText \<noteq> [] \<and> m (trim skuText) = None \<and> m (toUpperCase (trim skuText)) = Some v \<longrightarrow>
        getId m skuText = Some v)
   \<and> (skuText \<noteq> [] \<and> m (trim skuText) = None \<and> m (toUpperCase (trim skuText)) = None \<longrightarrow>
        getId m skuText = m (toLowerCase (trim skuText)))
   \<and> getId m [] = None
   \<and> (hmap st ''Abc-1'' = None \<longrightarrow>
        getId (hmap (write_sku num \<lparr>rec_sku = Some ''ABC-1'', rec_id = SNum 42\<rparr> st)) ''abc-1''
          = Some (Num 42)
        \<and> getId (hmap (write_sku num \<lparr>rec_sku = Some ''ABC-1'', rec_id = SNum 42\<rparr> st)) ''ABC-1''
          = Some (Num 42)
        \<and> getId (hmap (write_sku num \<lparr>rec_sku = Some ''ABC-1'', rec_id = SNum 42\<rparr> st)) '' Abc-1 ''
          = Some (Num 42))
   \<and> (skuText \<noteq> [] \<and> code \<noteq> [] \<and> idv \<noteq> SNull
        \<and> toLowerCase (trim skuText) = toLowerCase (trim code)
        \<and> hmap st (trim skuText) = None \<and> hmap st (toUpperCase (trim skuText)) = None \<longrightarrow>
        getId (hmap (write_sku num \<lparr>rec_sku = Some code, rec_id = idv\<rparr> st)) skuText
          = Some (Number num idv))"
proof (intro conjI impI)
  assume "skuText \<noteq> [] \<and> m (trim skuText) = Some v"
  then show "getId m skuText = Some v"
    by (simp add: getId_nonempty)
next
  assume "skuText \<noteq> [] \<and> m (trim skuText) = None \<and> m (toUpperCase (trim skuText)) = Some v"
  then show "getId m skuText = Some v"
    by (simp add: getId_nonempty)
next
  assume "skuText \<noteq> [] \<and> m (trim skuText) = None \<and> m (toUpperCase (trim skuText)) = None"
  then show "getId m skuText = m (toLowerCase (trim skuText))"
    by (simp add: getId_nonempty)
next
  show "getId m [] = None"
    by (simp add: getId_def)
next
  let ?m = "hmap (write_sku num \<lparr>rec_sku = Some ''ABC-1'', rec_id = SNum 42\<rparr> st)"
  assume fresh: "hmap st ''Abc-1'' = None"
  have m: "?m = (hmap st)(''ABC-1'' \<mapsto> Num 42, ''abc-1'' \<mapsto> Num 42)"
    by (simp add: hmap_write_sku trim_samples case_samples)
  show "getId ?m ''abc-1'' = Some (Num 42)"
    by (simp add: getId_nonempty trim_samples m)
  show "getId ?m ''ABC-1'' = Some (Num 42)"
    by (simp add: getId_nonempty trim_samples m)
  show "getId ?m '' Abc-1 '' = Some (Num 42)"
    using fresh by (simp add: getId_nonempty trim_samples case_samples m)
next
  let ?m = "hmap (write_sku num \<lparr>rec_sku = Some code, rec_id = idv\<rparr> st)"
  assume a: "skuText \<noteq> [] \<and> code \<noteq> [] \<and> idv \<noteq> SNull
        \<and> toLowerCase (trim skuText) = toLowerCase (trim code)
        \<and> hmap st (trim skuText) = None \<and> hmap st (toUpperCase (trim skuText)) = None"
  then have m: "?m = (hmap st)(trim code \<mapsto> Number num idv,
      toUpperCase (trim code) \<mapsto> Number num idv, toLowerCase (trim code) \<mapsto> Number num idv)"
    by (simp add: hmap_write_sku)
  have low: "?m (toLowerCase (trim skuText)) = Some (Number num idv)"
    using a by (simp add: m)
  have exact: "?m (trim skuText) = None \<or> ?m (trim skuText) = Some (Number num idv)"
    using a by (simp add: m)
  have upper: "?m (toUpperCase (trim skuText)) = None
      \<or> ?m (toUpperCase (trim skuText)) = Some (Number num idv)"
    using a by (simp add: m)
  from a have ne: "skuText \<noteq> []" by simp
  show "getId ?m skuText = Some (Number num idv)"
    using low exact upper by (auto simp: getId_nonempty [OF ne])
qed

theorem getId_spec_witness:
  "getId (hmap (write_sku sample_num \<lparr>rec_sku = Some ''ABC-1'', rec_id = SNum 42\<rparr>
            \<lparr>hmap = Map.empty, htotal = 0, hreqs = []\<rparr>)) '' Abc-1 '' = Some (Num 42)
   \<and> getId (hmap (write_sku sample_num \<lparr>rec_sku = Some ''ABC-1'', rec_id = SNum 42\<rparr>
            \<lparr>hmap = Map.empty, htotal = 0, hreqs = []\<rparr>)) ''abc-1'' = Some (Num 42)
   \<and> getId [''SKU1'' \<mapsto> Num 501] '' sku1'' = Some (Num 501)
   \<and> getId [''SKU1'' \<mapsto> Num 501] ''other'' = None"
proof -
  have up: "toUpperCase ''sku1'' = ''SKU1''" "toUpperCase ''other'' = ''OTHER''"
    by (simp_all add: toUpperCase_def lower_letters_def upper_letters_def)
  have lo: "toLowerCase ''other'' = ''other''"
    by (simp add: toLowerCase_def lower_letters_def upper_letters_def)
  have tr: "trim '' sku1'' = ''sku1''" "trim ''other'' = ''other''"
    by (simp_all add: trim_def is_space_def)
  show ?thesis
    using getId_spec [of "'' sku1''" "[''SKU1'' \<mapsto> Num 501]" "Num 501"
            "\<lparr>hmap = Map.empty, htotal = 0, hreqs = []\<rparr>" sample_num "''ABC-1''" "SNum 42"]
          getId_spec [of "''other''" "[''SKU1'' \<mapsto> Num 501]" "Num 501"
            "\<lparr>hmap = Map.empty, htotal = 0, hreqs = []\<rparr>" sample_num "''ABC-1''" "SNum 42"]
    by (simp add: up lo tr)
qed

section \<open>Hydration: properties\<close>

text \<open>
  The equation of \<open>hydrate_loop\<close> is used one step at a time, through the three
  lemmas \<open>hydrate_loop_fail\<close>, \<open>hydrate_loop_stop\<close> and \<open>hydrate_loop_next\<close>.
\<close>

declare hydrate_loop.simps [simp del]

lemma write_sku_dom: "dom (hmap st) \<subseteq> dom (hmap (write_sku num s st))"
  by (auto simp: write_sku_def Let_def split: option.splits)


lemma fold_write_sku_dom: "dom (hmap st) \<subseteq> dom (hmap (fold (write_sku num) p st))"
proof (induction p arbitrary: st)
  case Nil
  show ?case by simp
next
  case (Cons s p)
  have "dom (hmap st) \<subseteq> dom (hmap (write_sku num s st))"
    by (rule write_sku_dom)
  also have "\<dots> \<subseteq> dom (hmap (fold (write_sku num) p (write_sku num s st)))"
    by (rule Cons.IH)
  finally show ?case by simp
qed


lemma write_page_dom: "dom (hmap st) \<subseteq> dom (hmap (write_page num list st))"
  unfolding write_page_def
proof (induction list arbitrary: st)
  case Nil
  show ?case by simp
next
  case (Cons p list)
  have "dom (hmap st) \<subseteq> dom (hmap (fold (write_sku num) p st))"
    by (rule fold_write_sku_dom)
  also have "\<dots> \<subseteq> dom (hmap (fold (\<lambda>p. fold (write_sku num) p) list (fold (write_sku num) p st)))"
    by (rule Cons.IH)
  finally show ?case by simp
qed


lemma hydrate_loop_fail:
  "yampiGet fetch (page_path shop limit page) = Inl msg \<Longrightarrow>
     hydrate_loop num fetch shop limit pageStart maxPages page st =
       (Inl msg, st\<lparr>hreqs := hreqs st @ [page_path shop limit page]\<rparr>)"
  by (subst hydrate_loop.simps) (simp add: Let_def)

lemma hydrate_loop_stop:
  "yampiGet fetch (page_path shop limit page) = Inr resp \<Longrightarrow>
   stop_after num resp pageStart maxPages page \<Longrightarrow>
     hydrate_loop num fetch shop limit pageStart maxPages page st =
       (Inr (htotal (write_page num (lst_data resp)
               (st\<lparr>hreqs := hreqs st @ [page_path shop limit page]\<rparr>))),
        write_page num (lst_data resp) (st\<lparr>hreqs := hreqs st @ [page_path shop limit page]\<rparr>))"
  by (subst hydrate_loop.simps) (simp add: Let_def)

lemma hydrate_loop_next:
  "yampiGet fetch (page_path shop limit page) = Inr resp \<Longrightarrow>
   \<not> stop_after num resp pageStart maxPages page \<Longrightarrow>
     hydrate_loop num fetch shop limit pageStart maxPages page st =
       hydrate_loop num fetch shop limit pageStart maxPages (page + 1)
         (write_page num (lst_data resp) (st\<lparr>hreqs := hreqs st @ [page_path shop limit page]\<rparr>))"
  by (subst hydrate_loop.simps) (simp add: Let_def)

lemma hydrate_loop_dom:
  "dom (hmap st) \<subseteq> dom (hmap (snd (hydrate_loop num fetch shop limit pageStart maxPages page st)))"
proof (induction num fetch shop limit pageStart maxPages page st rule: hydrate_loop.induct)
  case (1 num fetch shop limit pageStart maxPages page st)
  let ?path = "page_path shop limit page"
  let ?st1 = "st\<lparr>hreqs := hreqs st @ [?path]\<rparr>"
  show ?case
  proof (cases "yampiGet fetch ?path")
    case (Inl msg)
    then show ?thesis
      by (simp add: hydrate_loop_fail)
  next
    case (Inr resp)
    let ?st2 = "write_page num (lst_data resp) ?st1"
    have step: "dom (hmap st) \<subseteq> dom (hmap ?st2)"
      using write_page_dom [of ?st1 num "lst_data resp"] by simp
    show ?thesis
    proof (cases "stop_after num resp pageStart maxPages page")
      case True
      with Inr step show ?thesis
        by (simp add: hydrate_loop_stop)
    next
      case False
      have "dom (hmap ?st2) \<subseteq> dom (hmap (snd (hydrate_loop num fetch shop limit pageStart
          maxPages (page + 1) ?st2)))"
        using "1.IH" [OF refl refl Inr refl False] .
      with step Inr False show ?thesis
        by (simp add: hydrate_loop_next)
    qed
  qed
qed



lemma sample_numerals:
  "show_int 1 = ''1''" "show_int 2 = ''2''" "show_int 3 = ''3''" "show_int 100 = ''100''"
  by (simp_all add: show_int_def digit_char_def)

lemmas hydrate_eval =
  hydrateOnce_default_def hydrateOnce_def hydrate_loop.simps Let_def yampiGet_def res_ok_def
  stop_after_def sample_page_def total_pages_of_def write_page_def write_sku_def page_path_def
  sample_numerals BASE_def digit_char_def

text \<open>
  Claim C5. Hydration only ever adds keys: from every state of the map (what was there
  before the attempt, and what earlier pages of the attempt have written), every key is
  still a key of the map when the loop ends, however it ends. When the request of a page
  fails, the loop ends at once with the exception, and the map is exactly what the earlier
  pages left. So every key of the state, if it is a non-empty trimmed code (as every key
  that hydration or the seed writes from a code with a non-blank character is), is still
  found by \<open>getId\<close> afterwards.
\<close>

theorem hydrate_additive:
  "dom (hmap st)
     \<subseteq> dom (hmap (snd (hydrate_loop num fetch shop limit pageStart maxPages page st)))
   \<and> dom m \<subseteq> dom (hmap (snd (hydrateOnce num fetch shop pageStart limit maxPages m)))
   \<and> (yampiGet fetch (page_path shop limit page) = Inl msg \<longrightarrow>
        hydrate_loop num fetch shop limit pageStart maxPages page st =
          (Inl msg, st\<lparr>hreqs := hreqs st @ [page_path shop limit page]\<rparr>))
   \<and> (\<forall>k. k \<in> dom (hmap st) \<and> k \<noteq> [] \<and> trim k = k \<longrightarrow>
        getId (hmap (snd (hydrate_loop num fetch shop limit pageStart maxPages page st))) k
          \<noteq> None)"
proof (intro conjI allI impI)
  show "dom (hmap st)
      \<subseteq> dom (hmap (snd (hydrate_loop num fetch shop limit pageStart maxPages page st)))"
    by (rule hydrate_loop_dom)
next
  show "dom m \<subseteq> dom (hmap (snd (hydrateOnce num fetch shop pageStart limit maxPages m)))"
    using hydrate_loop_dom [of "\<lparr>hmap = m, htotal = 0, hreqs = []\<rparr>"]
    by (simp add: hydrateOnce_def)
next
  assume "yampiGet fetch (page_path shop limit page) = Inl msg"
  then show "hydrate_loop num fetch shop limit pageStart maxPages page st =
      (Inl msg, st\<lparr>hreqs := hreqs st @ [page_path shop limit page]\<rparr>)"
    by (rule hydrate_loop_fail)
next
  fix k
  let ?m = "hmap (snd (hydrate_loop num fetch shop limit pageStart maxPages page st))"
  assume k: "k \<in> dom (hmap st) \<and> k \<noteq> [] \<and> trim k = k"
  then have "k \<in> dom ?m"
    using hydrate_loop_dom [of st num fetch shop limit pageStart maxPages page] by blast
  then obtain v where "?m k = Some v"
    by blast
  with k show "getId ?m k \<noteq> None"
    by (simp add: getId_nonempty)
qed

theorem hydrate_additive_witness:
  "fst (hydrateOnce_default sample_num failing_catalog ''loja'' [''OLD'' \<mapsto> Num 7])
     = Inl ''[Yampi GET 503] unavailable''
   \<and> getId (hmap (snd (hydrateOnce_default sample_num failing_catalog ''loja''
         [''OLD'' \<mapsto> Num 7]))) ''abc-1'' = Some (Num 42)
   \<and> getId (hmap (snd (hydrateOnce_default sample_num failing_catalog ''loja''
         [''OLD'' \<mapsto> Num 7]))) ''OLD'' \<noteq> None
   \<and> hydrate_loop sample_num failing_catalog ''loja'' 100 1 1000 2
         \<lparr>hmap = [''OLD'' \<mapsto> Num 7], htotal = 0, hreqs = []\<rparr>
       = (Inl ''[Yampi GET 503] unavailable'',
          \<lparr>hmap = [''OLD'' \<mapsto> Num 7], htotal = 0, hreqs = [page_path ''loja'' 100 2]\<rparr>)"
proof -
  have failed: "yampiGet failing_catalog (page_path ''loja'' 100 2)
      = Inl ''[Yampi GET 503] unavailable''"
    by (simp add: yampiGet_def failing_catalog_def page_path_def sample_numerals BASE_def
        res_ok_def digit_char_def)
  have old: "''OLD'' \<in> dom (hmap \<lparr>hmap = [''OLD'' \<mapsto> Num 7], htotal = 0, hreqs = []\<rparr>)
      \<and> ''OLD'' \<noteq> [] \<and> trim ''OLD'' = ''OLD''"
    by (simp add: trim_def is_space_def)
  have raised: "fst (hydrateOnce_default sample_num failing_catalog ''loja'' [''OLD'' \<mapsto> Num 7])
      = Inl ''[Yampi GET 503] unavailable''"
    by (simp add: hydrate_eval failing_catalog_def)
  have kept: "getId (hmap (snd (hydrateOnce_default sample_num failing_catalog ''loja''
      [''OLD'' \<mapsto> Num 7]))) ''abc-1'' = Some (Num 42)"
    by (simp add: hydrate_eval failing_catalog_def getId_def trim_def is_space_def
        toUpperCase_def toLowerCase_def upper_letters_def lower_letters_def)
  show ?thesis
    using hydrate_additive [where st = "\<lparr>hmap = [''OLD'' \<mapsto> Num 7], htotal = 0, hreqs = []\<rparr>"
        and num = sample_num and fetch = failing_catalog and shop = "''loja''" and limit = 100
        and pageStart = 1 and maxPages = 1000 and page = 2 and m = "[''OLD'' \<mapsto> Num 7]"
        and msg = "''[Yampi GET 503] unavailable''"]
      hydrate_additive [where st = "\<lparr>hmap = [''OLD'' \<mapsto> Num 7], htotal = 0, hreqs = []\<rparr>"
        and num = sample_num and fetch = failing_catalog and shop = "''loja''" and limit = 100
        and pageStart = 1 and maxPages = 1000 and page = 1 and m = "[''OLD'' \<mapsto> Num 7]"
        and msg = "''[Yampi GET 503] unavailable''"]
      failed old raised kept
    by (simp add: hydrateOnce_default_def hydrateOnce_def)
qed




section \<open>Catalog writes: properties\<close>

lemma write_sku_skip:
  "rec_sku s = None \<or> rec_sku s = Some [] \<or> rec_id s = SNull \<Longrightarrow> write_sku num s st = st"
  by (auto simp: write_sku_def split: option.splits)

lemma write_sku_lookup:
  "code \<noteq> [] \<Longrightarrow> idv \<noteq> SNull \<Longrightarrow>
     hmap (write_sku num \<lparr>rec_sku = Some code, rec_id = idv\<rparr> st) k =
       (if k = trim code \<or> k = toUpperCase (trim code) \<or> k = toLowerCase (trim code)
        then Some (Number num idv) else hmap st k)"
  by (simp add: hmap_write_sku)

lemma seed_record_lookup:
  "seed_record num r m k = Some v \<Longrightarrow> m k = Some v \<or> v = Number num (rec_id r)"
  by (auto simp: seed_record_def split: option.splits if_splits)

lemma positive_Number: "positive_id v \<Longrightarrow> positive_integer (Number num v)"
  by (cases v) simp_all

lemma write_sku_positive:
  assumes "all_positive (hmap st)" and "positive_id (rec_id s)"
  shows "all_positive (hmap (write_sku num s st))"
  using assms positive_Number [of "rec_id s" num]
  by (auto simp: all_positive_def write_sku_def Let_def split: option.splits if_splits)

lemma fold_write_sku_positive:
  "all_positive (hmap st) \<Longrightarrow> positive_records p \<Longrightarrow>
     all_positive (hmap (fold (write_sku num) p st))"
proof (induction p arbitrary: st)
  case Nil
  then show ?case by simp
next
  case (Cons s p)
  from Cons.prems have "all_positive (hmap (write_sku num s st))"
    by (simp add: positive_records_def write_sku_positive)
  moreover from Cons.prems have "positive_records p"
    by (simp add: positive_records_def)
  ultimately show ?case
    using Cons.IH by simp
qed

lemma write_page_positive:
  "all_positive (hmap st) \<Longrightarrow> list_all positive_records list \<Longrightarrow>
     all_positive (hmap (write_page num list st))"
  unfolding write_page_def
proof (induction list arbitrary: st)
  case Nil
  then show ?case by simp
next
  case (Cons p list)
  from Cons.prems have "all_positive (hmap (fold (write_sku num) p st))"
    by (simp add: fold_write_sku_positive)
  with Cons.prems Cons.IH show ?case
    by simp
qed

lemma yampiGet_positive:
  "positive_catalog fetch \<Longrightarrow> yampiGet fetch path = Inr resp \<Longrightarrow>
     list_all positive_records (lst_data resp)"
  by (auto simp: positive_catalog_def yampiGet_def split: fetch_result.splits if_splits)

lemma hydrate_loop_positive:
  "positive_catalog fetch \<Longrightarrow> all_positive (hmap st) \<Longrightarrow>
     all_positive (hmap (snd (hydrate_loop num fetch shop limit pageStart maxPages page st)))"
proof (induction num fetch shop limit pageStart maxPages page st rule: hydrate_loop.induct)
  case (1 num fetch shop limit pageStart maxPages page st)
  let ?path = "page_path shop limit page"
  let ?st1 = "st\<lparr>hreqs := hreqs st @ [?path]\<rparr>"
  show ?case
  proof (cases "yampiGet fetch ?path")
    case (Inl msg)
    with "1.prems" show ?thesis
      by (simp add: hydrate_loop_fail)
  next
    case (Inr resp)
    let ?st2 = "write_page num (lst_data resp) ?st1"
    have pos: "all_positive (hmap ?st2)"
      using "1.prems" yampiGet_positive [OF _ Inr] by (simp add: write_page_positive)
    show ?thesis
    proof (cases "stop_after num resp pageStart maxPages page")
      case True
      with Inr pos show ?thesis
        by (simp add: hydrate_loop_stop)
    next
      case False
      have "all_positive (hmap (snd (hydrate_loop num fetch shop limit pageStart maxPages
          (page + 1) ?st2)))"
        using "1.IH" [OF refl refl Inr refl False "1.prems"(1) pos] .
      with Inr False show ?thesis
        by (simp add: hydrate_loop_next)
    qed
  qed
qed

lemma seed_record_positive:
  "all_positive m \<Longrightarrow> positive_id (rec_id r) \<Longrightarrow> all_positive (seed_record num r m)"
  using positive_Number [of "rec_id r" num]
  by (auto simp: all_positive_def seed_record_def split: option.splits if_splits)

lemma fold_seed_record_positive:
  "all_positive m \<Longrightarrow> positive_records rs \<Longrightarrow> all_positive (fold (seed_record num) rs m)"
proof (induction rs arbitrary: m)
  case Nil
  then show ?case by simp
next
  case (Cons r rs)
  from Cons.prems have "all_positive (seed_record num r m)"
    by (simp add: positive_records_def seed_record_positive)
  moreover from Cons.prems have "positive_records rs"
    by (simp add: positive_records_def)
  ultimately show ?case
    using Cons.IH by simp
qed

lemma fold_seed_entry_positive:
  "all_positive m \<Longrightarrow> list_all (\<lambda>e. positive_id (snd e)) es \<Longrightarrow>
     all_positive (fold (seed_entry num) es m)"
proof (induction es arbitrary: m)
  case Nil
  then show ?case by simp
next
  case (Cons e es)
  from Cons.prems have "all_positive (seed_entry num e m)"
    using positive_Number [of "snd e" num]
    by (auto simp: all_positive_def seed_entry_def)
  with Cons.prems Cons.IH show ?case
    by simp
qed

text \<open>
  Claim C8: the code does not do this for the seed. A seed list with the one record
  (code \<open>Abc-1\<close>, id 42), loaded into the empty catalog, leaves the single key
  \<open>Abc-1\<close>, and the lookup of \<open>abc-1\<close> finds nothing; the same record written by
  hydration is stored under \<open>Abc-1\<close>, \<open>ABC-1\<close> and \<open>abc-1\<close>, and the lookup finds it.
  So is it for the seed given as an object.
\<close>

theorem seed_writes_single_key:
  "bootstrap_seed sample_num (Some (SeedArray [\<lparr>rec_sku = Some ''Abc-1'', rec_id = SNum 42\<rparr>]))
       Map.empty = [''Abc-1'' \<mapsto> Num 42]
   \<and> bootstrap_seed sample_num (Some (SeedObject [(''Abc-1'', SNum 42)])) Map.empty
       = [''Abc-1'' \<mapsto> Num 42]
   \<and> getId (bootstrap_seed sample_num
         (Some (SeedArray [\<lparr>rec_sku = Some ''Abc-1'', rec_id = SNum 42\<rparr>])) Map.empty) ''abc-1''
       = None
   \<and> hmap (write_sku sample_num \<lparr>rec_sku = Some ''Abc-1'', rec_id = SNum 42\<rparr>
         \<lparr>hmap = Map.empty, htotal = 0, hreqs = []\<rparr>)
       = [''Abc-1'' \<mapsto> Num 42, ''ABC-1'' \<mapsto> Num 42, ''abc-1'' \<mapsto> Num 42]
   \<and> getId (hmap (write_sku sample_num \<lparr>rec_sku = Some ''Abc-1'', rec_id = SNum 42\<rparr>
         \<lparr>hmap = Map.empty, htotal = 0, hreqs = []\<rparr>)) ''abc-1'' = Some (Num 42)"
  by (simp add: seed_record_def seed_entry_def write_sku_def getId_def Let_def trim_def
      is_space_def toUpperCase_def toLowerCase_def upper_letters_def lower_letters_def)

text \<open>
  Claim C9, as stated, fails: hydration accepts every id that is not \<^verbatim>\<open>null\<close>, so
  the record (code \<open>X\<close>, id 0) is written with the identifier 0; and the seed given as
  an object checks nothing, so the entry \<open>X\<close> with id \<open>-5\<close> is stored as \<open>-5\<close>.
\<close>

theorem stored_id_not_positive:
  "hmap (write_sku sample_num \<lparr>rec_sku = Some ''X'', rec_id = SNum 0\<rparr>
      \<lparr>hmap = Map.empty, htotal = 0, hreqs = []\<rparr>) ''X'' = Some (Num 0)
   \<and> \<not> positive_integer (Num 0)
   \<and> bootstrap_seed sample_num (Some (SeedObject [(''X'', SNum (- 5))])) Map.empty ''X''
       = Some (Num (- 5))
   \<and> \<not> positive_integer (Num (- 5))"
  by (simp add: write_sku_def seed_entry_def Let_def trim_def is_space_def toUpperCase_def
      toLowerCase_def upper_letters_def lower_letters_def)

text \<open>
  Claim C9, amended. The value stored for a record is \<^verbatim>\<open>Number(id)\<close> of that record's
  id, under the write condition of each path: a non-empty code and an id that is not
  \<^verbatim>\<open>null\<close> for hydration, a non-empty code and a truthy id for the seed list, no
  condition for the seed object. The code never tests the number itself. Hence the
  invariant holds relative to the input: if every value of the catalog is a positive
  integer and every record that is read (all the pages the upstream answers, or all the
  seed) carries a positive integer as its JSON id, then every value of the catalog is a
  positive integer after hydration, and after the seed load.
\<close>

theorem stored_ids_positive_if_input_is:
  "(code \<noteq> [] \<and> idv \<noteq> SNull \<longrightarrow>
      hmap (write_sku num \<lparr>rec_sku = Some code, rec_id = idv\<rparr> st) (trim code)
        = Some (Number num idv))
   \<and> (\<forall>k v. seed_record num r m k = Some v \<longrightarrow> m k = Some v \<or> v = Number num (rec_id r))
   \<and> seed_entry num (code, idv) m (trim code) = Some (Number num idv)
   \<and> (positive_catalog fetch \<and> all_positive m \<longrightarrow>
        all_positive (hmap (snd (hydrateOnce num fetch shop pageStart limit maxPages m))))
   \<and> (positive_records rs \<and> all_positive m \<longrightarrow>
        all_positive (bootstrap_seed num (Some (SeedArray rs)) m))
   \<and> (list_all (\<lambda>e. positive_id (snd e)) es \<and> all_positive m \<longrightarrow>
        all_positive (bootstrap_seed num (Some (SeedObject es)) m))"
proof (intro conjI allI impI)
  assume "code \<noteq> [] \<and> idv \<noteq> SNull"
  then show "hmap (write_sku num \<lparr>rec_sku = Some code, rec_id = idv\<rparr> st) (trim code)
      = Some (Number num idv)"
    by (simp add: write_sku_lookup)
next
  fix k v
  assume "seed_record num r m k = Some v"
  then show "m k = Some v \<or> v = Number num (rec_id r)"
    by (rule seed_record_lookup)
next
  show "seed_entry num (code, idv) m (trim code) = Some (Number num idv)"
    by (simp add: seed_entry_def)
next
  assume "positive_catalog fetch \<and> all_positive m"
  then show "all_positive (hmap (snd (hydrateOnce num fetch shop pageStart limit maxPages m)))"
    by (simp add: hydrateOnce_def hydrate_loop_positive)
next
  assume "positive_records rs \<and> all_positive m"
  then show "all_positive (bootstrap_seed num (Some (SeedArray rs)) m)"
    by (simp add: fold_seed_record_positive)
next
  assume "list_all (\<lambda>e. positive_id (snd e)) es \<and> all_positive m"
  then show "all_positive (bootstrap_seed num (Some (SeedObject es)) m)"
    by (simp add: fold_seed_entry_positive)
qed

theorem stored_ids_positive_if_input_is_witness:
  "hmap (write_sku sample_num \<lparr>rec_sku = Some ''ABC-1'', rec_id = SNum 42\<rparr>
      \<lparr>hmap = Map.empty, htotal = 0, hreqs = []\<rparr>) (trim ''ABC-1'') = Some (Num 42)
   \<and> all_positive (hmap (snd (hydrateOnce sample_num endless_catalog ''loja'' 1 100 3
         [''OLD'' \<mapsto> Num 7])))
   \<and> all_positive (bootstrap_seed sample_num
         (Some (SeedArray [\<lparr>rec_sku = Some ''Abc-1'', rec_id = SNum 42\<rparr>])) [''OLD'' \<mapsto> Num 7])
   \<and> all_positive (bootstrap_seed sample_num (Some (SeedObject [(''Abc-1'', SNum 42)]))
         [''OLD'' \<mapsto> Num 7])"
proof -
  have cat: "positive_catalog endless_catalog"
    by (simp add: positive_catalog_def endless_catalog_def sample_page_def positive_records_def)
  have old: "all_positive [''OLD'' \<mapsto> Num 7]"
    by (simp add: all_positive_def)
  have recs: "positive_records [\<lparr>rec_sku = Some ''Abc-1'', rec_id = SNum 42\<rparr>]"
    by (simp add: positive_records_def)
  have ents: "list_all (\<lambda>e. positive_id (snd e)) [(''Abc-1'', SNum 42)]"
    by simp
  show ?thesis
    using stored_ids_positive_if_input_is [where code = "''ABC-1''" and idv = "SNum 42"
        and num = sample_num and st = "\<lparr>hmap = Map.empty, htotal = 0, hreqs = []\<rparr>"
        and fetch = endless_catalog and m = "[''OLD'' \<mapsto> Num 7]" and shop = "''loja''"
        and pageStart = 1 and limit = 100 and maxPages = 3
        and rs = "[\<lparr>rec_sku = Some ''Abc-1'', rec_id = SNum 42\<rparr>]"
        and es = "[(''Abc-1'', SNum 42)]"]
      cat old recs ents
    by simp
qed

section \<open>Quote orchestrator: properties\<close>

lemma prepare_bad_signature:
  "\<not> signature_ok cfg e req \<Longrightarrow> prepare cfg e m req = Reject 401 msg_signature"
  by (simp add: prepare_def)

lemma prepare_bad_cep:
  "signature_ok cfg e req \<Longrightarrow> length (parse_cep req) \<noteq> 8 \<Longrightarrow>
     prepare cfg e m req = Reject 400 msg_cep"
  by (simp add: prepare_def Let_def)

lemma prepare_resolve:
  assumes "signature_ok cfg e req" and "length (parse_cep req) = 8"
    and "toArr (nullish (param req ''skus'') (param req ''skus_ids'')) = skusArr"
    and "skusArr \<noteq> []"
    and "length skusArr = length (toArr (param req ''quantities''))"
  shows "prepare cfg e m req =
     (case resolve_ids (env_num e) m skusArr [] of
        Inl s \<Rightarrow> Reject 400 (msg_unmapped s)
      | Inr ids \<Rightarrow>
          Ready (parse_cep req) (map_option (\<lambda>v. env_num e (to_String v)) (param req ''total''))
            ids (map (env_num e) (toArr (param req ''quantities''))))"
  using assms by (simp add: prepare_def Let_def)

lemma cached_reject:
  "prepare cfg e m req = Reject st msg \<Longrightarrow>
     proxy_handler_cached cfg e m now_get now_set c req =
       \<lparr>out_status = st, out_body = ErrorBody msg, out_cache = c, out_calls = []\<rparr>"
  by (simp add: proxy_handler_cached_def)

lemma inline_reject:
  "prepare cfg e m req = Reject st msg \<Longrightarrow>
     proxy_handler_inline cfg e m now_get now_set c req =
       \<lparr>out_status = st, out_body = ErrorBody msg, out_cache = c, out_calls = []\<rparr>"
  by (simp add: proxy_handler_inline_def)

lemma calcularFreteYampi_not_ok:
  "fetch (quote_request_of a) = Response st txt parsed \<Longrightarrow> \<not> res_ok st \<Longrightarrow>
     calcularFreteYampi fetch a =
       (Inl (''Yampi '' @ show_nat st @ '': '' @ txt), [quote_request_of a])"
  by (simp add: calcularFreteYampi_def Let_def)

lemma resolve_ids_append:
  "resolve_ids num m (xs @ ys) ids =
     (case resolve_ids num m xs ids of
        Inl s \<Rightarrow> Inl s
      | Inr ids' \<Rightarrow> resolve_ids num m ys ids')"
  by (induction xs arbitrary: ids) (simp_all split: option.splits)

lemma resolve_ids_truthy:
  "resolve_ids num m ss ids = Inr ids' \<Longrightarrow> s \<in> set ss \<Longrightarrow> \<not> all_digits s \<Longrightarrow>
     \<exists>v. getId m s = Some v \<and> \<not> falsy_num v"
proof (induction ss arbitrary: ids)
  case Nil
  then show ?case by simp
next
  case (Cons x ss)
  show ?case
  proof (cases "s = x")
    case True
    with Cons.prems show ?thesis
      by (auto split: option.splits if_splits)
  next
    case False
    with Cons.prems have "s \<in> set ss" by simp
    moreover from Cons.prems obtain ids1 where "resolve_ids num m ss ids1 = Inr ids'"
      by (auto split: option.splits if_splits)
    ultimately show ?thesis
      using Cons.IH Cons.prems(3) by blast
  qed
qed

lemma sample_env_sel:
  "env_hmac (sample_env f) = sample_digest" "env_num (sample_env f) = sample_num"
  "env_stringify (sample_env f) = sample_stringify" "env_fetch (sample_env f) = f"
  by (simp_all add: sample_env_def)

lemma sample_config_sel:
  "cfg_disable_check (sample_config flag) = flag" "cfg_secret (sample_config flag) = Some ''shh''"
  "cfg_alias (sample_config flag) = ''loja''" "cfg_TTL (sample_config flag) = 300000"
  by (simp_all add: sample_config_def)

lemmas request_eval =
  prepare_def signature_ok_def verifyShopifyProxy_def rest_params_def signing_base_def
  render_pair_def sample_digest_def sample_env_sel sample_config_sel parse_cep_def param_def
  nullish_def is_digit_def trim_def is_space_def all_digits_def sample_num_def getId_def
  toUpperCase_def toLowerCase_def upper_letters_def lower_letters_def falsy_num_def Let_def
  sample_catalog_def

lemma prepare_sample_request:
  "prepare (sample_config ''false'') (sample_env f) sample_catalog sample_request
     = Ready ''01001000'' None [Num 501, Num 99] [Num 2, Num 1]"
  by (simp add: request_eval sample_request_def)

lemma signature_ok_sample_request:
  "signature_ok (sample_config ''false'') (sample_env f) sample_request"
  by (simp add: request_eval sample_request_def)

text \<open>
  The first end-to-end scenario of the specification: the postal code \<open>01001-000\<close>
  is normalised to \<open>01001000\<close>, the code \<open>SKU1\<close> resolves to 501 and \<open>99\<close> is
  used as it is; with the upstream up, the answer is stored and returned, and the same
  request a moment later is answered from the cache without a second call.
\<close>

lemma sample_request_quoted:
  "proxy_handler_cached (sample_config ''false'') (sample_env up_quotes) sample_catalog
       1000 1001 Map.empty sample_request
     = \<lparr>out_status = 200, out_body = DataBody (JArr [JStr ''PAC'']) False,
        out_cache = [''01001000:2'' \<mapsto> \<lparr>stored_at = 1001, payload = JArr [JStr ''PAC'']\<rparr>],
        out_calls = [quote_request_of (handler_args (sample_config ''false'') ''01001000'' None
                       [Num 501, Num 99] [Num 2, Num 1])]\<rparr>"
  by (simp add: proxy_handler_cached_def prepare_sample_request makeCacheKey_def
      getFromCache_def setCache_def calcularFreteYampi_def sample_env_sel sample_config_sel
      Let_def up_quotes_def res_ok_def data_or_self_def sample_stringify_def digit_char_def)

lemma sample_request_cached:
  "proxy_handler_cached (sample_config ''false'') (sample_env up_quotes) sample_catalog
       2000 2001 [''01001000:2'' \<mapsto> \<lparr>stored_at = 1001, payload = JArr [JStr ''PAC'']\<rparr>]
       sample_request
     = \<lparr>out_status = 200, out_body = DataBody (JArr [JStr ''PAC'']) True,
        out_cache = [''01001000:2'' \<mapsto> \<lparr>stored_at = 1001, payload = JArr [JStr ''PAC'']\<rparr>],
        out_calls = []\<rparr>"
  by (simp add: proxy_handler_cached_def prepare_sample_request makeCacheKey_def
      getFromCache_def sample_env_sel sample_config_sel Let_def sample_stringify_def
      digit_char_def)

text \<open>
  Claim C4, as stated, fails: no branch of the handler answers 502. With the upstream
  down (status 503), the signed sample request, on an empty cache, is answered with the
  status 500, in both variants.
\<close>

theorem upstream_failure_status_500:
  "out_status (proxy_handler_cached (sample_config ''false'') (sample_env down_quotes)
      sample_catalog 1000 1001 Map.empty sample_request) = 500
   \<and> out_status (proxy_handler_inline (sample_config ''false'') (sample_env down_quotes)
      sample_catalog 1000 1001 Map.empty sample_request) = 500"
  by (simp add: proxy_handler_cached_def proxy_handler_inline_def prepare_sample_request
      makeCacheKey_def getFromCache_def inline_get_def calcularFreteYampi_def sample_env_sel
      sample_config_sel Let_def down_quotes_def res_ok_def)

text \<open>
  Claim C4, amended. Once the request has passed steps 1 to 3 and the cache has no usable
  entry for its key, a response of the upstream quote API whose status is not in 200 to
  299 makes \<open>calcularFreteYampi\<close> throw, and the handler answers with the status 500 and
  the error message \<open>Yampi <status>: <body>\<close>, after exactly one upstream call and
  without writing to the cache.
\<close>

theorem upstream_failure_responds:
  "(prepare cfg e m req = Ready cep totalv ids qtys
      \<and> \<not> truthy_json (fst (getFromCache (cfg_TTL cfg) now_get c
             (makeCacheKey e cep ids qtys totalv)))
      \<and> env_fetch e (quote_request_of (handler_args cfg cep totalv ids qtys))
           = Response st btext parsed
      \<and> \<not> res_ok st \<longrightarrow>
      proxy_handler_cached cfg e m now_get now_set c req =
        \<lparr>out_status = 500, out_body = ErrorBody (''Yampi '' @ show_nat st @ '': '' @ btext),
         out_cache = snd (getFromCache (cfg_TTL cfg) now_get c
             (makeCacheKey e cep ids qtys totalv)),
         out_calls = [quote_request_of (handler_args cfg cep totalv ids qtys)]\<rparr>)
   \<and> (prepare cfg e m req = Ready cep totalv ids qtys
      \<and> inline_get (cfg_TTL cfg) now_get c (makeCacheKey e cep ids qtys totalv) = None
      \<and> env_fetch e (quote_request_of (handler_args cfg cep totalv ids qtys))
           = Response st btext parsed
      \<and> \<not> res_ok st \<longrightarrow>
      proxy_handler_inline cfg e m now_get now_set c req =
        \<lparr>out_status = 500, out_body = ErrorBody (''Yampi '' @ show_nat st @ '': '' @ btext),
         out_cache = c,
         out_calls = [quote_request_of (handler_args cfg cep totalv ids qtys)]\<rparr>)"
  by (simp add: proxy_handler_cached_def proxy_handler_inline_def Let_def
      calcularFreteYampi_not_ok)

theorem upstream_failure_responds_witness:
  "proxy_handler_cached (sample_config ''false'') (sample_env down_quotes) sample_catalog
       1000 1001 Map.empty sample_request
     = \<lparr>out_status = 500, out_body = ErrorBody ''Yampi 503: unavailable'',
        out_cache = Map.empty,
        out_calls = [quote_request_of (handler_args (sample_config ''false'') ''01001000'' None
                       [Num 501, Num 99] [Num 2, Num 1])]\<rparr>
   \<and> proxy_handler_inline (sample_config ''false'') (sample_env down_quotes) sample_catalog
       1000 1001 Map.empty sample_request
     = \<lparr>out_status = 500, out_body = ErrorBody ''Yampi 503: unavailable'',
        out_cache = Map.empty,
        out_calls = [quote_request_of (handler_args (sample_config ''false'') ''01001000'' None
                       [Num 501, Num 99] [Num 2, Num 1])]\<rparr>"
  using upstream_failure_responds [where cfg = "sample_config ''false''"
      and e = "sample_env down_quotes" and m = sample_catalog and req = sample_request
      and cep = "''01001000''" and totalv = None and ids = "[Num 501, Num 99]"
      and qtys = "[Num 2, Num 1]" and now_get = 1000 and now_set = 1001 and c = Map.empty
      and st = 503 and btext = "''unavailable''" and parsed = "Inl ''not JSON''"]
  by (simp add: prepare_sample_request getFromCache_def inline_get_def sample_env_sel
      down_quotes_def res_ok_def digit_char_def)

lemma parse_cep_short: "parse_cep short_cep_request = ''0100100''"
  by (simp add: parse_cep_def param_def short_cep_request_def is_digit_def)

lemma signature_short:
  "signature_ok (sample_config ''true'') (sample_env f) short_cep_request"
  "\<not> signature_ok (sample_config ''false'') (sample_env f) short_cep_request"
  by (simp_all add: signature_ok_def sample_config_sel verifyShopifyProxy_def
      short_cep_request_def)

text \<open>
  Claim C7, as stated, fails for a request that does not pass the signature step, which
  comes first: the request of \<open>short_cep_request\<close>, whose postal code has seven digits
  and which carries no signature, is answered 401 when the check is enabled.
\<close>

theorem short_cep_unsigned_status_401:
  "length (parse_cep short_cep_request) = 7
   \<and> out_status (proxy_handler_cached (sample_config ''false'') (sample_env up_quotes)
        sample_catalog 1000 1001 Map.empty short_cep_request) = 401
   \<and> out_status (proxy_handler_inline (sample_config ''false'') (sample_env up_quotes)
        sample_catalog 1000 1001 Map.empty short_cep_request) = 401"
  by (simp add: parse_cep_short cached_reject [OF prepare_bad_signature]
      inline_reject [OF prepare_bad_signature] signature_short)

text \<open>
  Claim C7, amended. For every request that passes the signature step (the signature is
  valid, or the check is disabled by configuration) and whose postal code, after
  stripping the non-digit characters, is not exactly 8 digits, the handler responds with
  the status 400 and the message of the invalid postal code, makes no upstream call, and
  leaves the quote cache unchanged. A request that does not pass the signature step is
  answered 401, whatever its postal code, also without an upstream call or a change of
  the cache.
\<close>

theorem invalid_cep_rejected:
  "(length (parse_cep req) \<noteq> 8 \<and> signature_ok cfg e req \<longrightarrow>
      proxy_handler_cached cfg e m now_get now_set c req =
        \<lparr>out_status = 400, out_body = ErrorBody msg_cep, out_cache = c, out_calls = []\<rparr>
      \<and> proxy_handler_inline cfg e m now_get now_set c req =
        \<lparr>out_status = 400, out_body = ErrorBody msg_cep, out_cache = c, out_calls = []\<rparr>)
   \<and> (\<not> signature_ok cfg e req \<longrightarrow>
      proxy_handler_cached cfg e m now_get now_set c req =
        \<lparr>out_status = 401, out_body = ErrorBody msg_signature, out_cache = c, out_calls = []\<rparr>
      \<and> proxy_handler_inline cfg e m now_get now_set c req =
        \<lparr>out_status = 401, out_body = ErrorBody msg_signature, out_cache = c,
         out_calls = []\<rparr>)
   \<and> (cfg_disable_check cfg = ''true'' \<longrightarrow> signature_ok cfg e req)
   \<and> (cfg_disable_check cfg \<noteq> ''true'' \<longrightarrow>
        signature_ok cfg e req
          = verifyShopifyProxy (env_hmac e) (Some (req_query req)) (cfg_secret cfg))"
proof (intro conjI impI)
  assume a: "length (parse_cep req) \<noteq> 8 \<and> signature_ok cfg e req"
  then have "prepare cfg e m req = Reject 400 msg_cep"
    by (simp add: prepare_bad_cep)
  then show "proxy_handler_cached cfg e m now_get now_set c req =
      \<lparr>out_status = 400, out_body = ErrorBody msg_cep, out_cache = c, out_calls = []\<rparr>"
    and "proxy_handler_inline cfg e m now_get now_set c req =
      \<lparr>out_status = 400, out_body = ErrorBody msg_cep, out_cache = c, out_calls = []\<rparr>"
    by (simp_all add: cached_reject inline_reject)
next
  assume "\<not> signature_ok cfg e req"
  then have "prepare cfg e m req = Reject 401 msg_signature"
    by (rule prepare_bad_signature)
  then show "proxy_handler_cached cfg e m now_get now_set c req =
      \<lparr>out_status = 401, out_body = ErrorBody msg_signature, out_cache = c, out_calls = []\<rparr>"
    and "proxy_handler_inline cfg e m now_get now_set c req =
      \<lparr>out_status = 401, out_body = ErrorBody msg_signature, out_cache = c, out_calls = []\<rparr>"
    by (simp_all add: cached_reject inline_reject)
next
  assume "cfg_disable_check cfg = ''true''"
  then show "signature_ok cfg e req"
    by (simp add: signature_ok_def)
next
  assume "cfg_disable_check cfg \<noteq> ''true''"
  then show "signature_ok cfg e req
      = verifyShopifyProxy (env_hmac e) (Some (req_query req)) (cfg_secret cfg)"
    by (simp add: signature_ok_def)
qed

theorem invalid_cep_rejected_witness:
  "proxy_handler_cached (sample_config ''true'') (sample_env up_quotes) sample_catalog
       1000 1001 Map.empty short_cep_request
     = \<lparr>out_status = 400, out_body = ErrorBody msg_cep, out_cache = Map.empty, out_calls = []\<rparr>
   \<and> proxy_handler_inline (sample_config ''true'') (sample_env up_quotes) sample_catalog
       1000 1001 Map.empty short_cep_request
     = \<lparr>out_status = 400, out_body = ErrorBody msg_cep, out_cache = Map.empty, out_calls = []\<rparr>
   \<and> proxy_handler_cached (sample_config ''false'') (sample_env up_quotes) sample_catalog
       1000 1001 Map.empty short_cep_request
     = \<lparr>out_status = 401, out_body = ErrorBody msg_signature, out_cache = Map.empty,
        out_calls = []\<rparr>"
  using invalid_cep_rejected [where req = short_cep_request and cfg = "sample_config ''true''"
      and e = "sample_env up_quotes" and m = sample_catalog and now_get = 1000
      and now_set = 1001 and c = Map.empty]
    invalid_cep_rejected [where req = short_cep_request and cfg = "sample_config ''false''"
      and e = "sample_env up_quotes" and m = sample_catalog and now_get = 1000
      and now_set = 1001 and c = Map.empty]
  by (simp add: parse_cep_short signature_short)

lemma resolve_ids_falsy:
  "\<not> all_digits s \<Longrightarrow> getId m s = None \<or> getId m s = Some (Num 0) \<Longrightarrow>
     resolve_ids num m (s # ss) ids = Inl s"
  by (auto simp: falsy_num_def)

text \<open>
  Claim C10. In the resolution loop, an item code that is not purely numeric and that
  \<open>getId\<close> resolves to the identifier 0 ends the loop exactly as a code without a
  mapping does: with the early return that names the code, whatever identifiers were
  collected before. So when the request has reached the loop and the codes before this one
  resolve, the handler answers 400 with the message that names the code as unmapped,
  makes no upstream call and leaves the cache unchanged. Conversely, whenever the loop
  succeeds, every non-numeric code of the list has resolved to an identifier that is
  neither absent nor 0, so 0 never goes upstream as the resolution of a code.
\<close>

theorem zero_id_treated_as_unmapped:
  "(\<not> all_digits s \<and> getId m s = Some (Num 0) \<longrightarrow> resolve_ids num m (s # ss) ids = Inl s)
   \<and> (\<not> all_digits s \<and> getId m s = None \<longrightarrow> resolve_ids num m (s # ss) ids = Inl s)
   \<and> (resolve_ids num m pre [] = Inr ids \<and> \<not> all_digits s \<and> getId m s = Some (Num 0) \<longrightarrow>
        resolve_ids num m (pre @ s # ss) [] = Inl s)
   \<and> (signature_ok cfg e req \<and> length (parse_cep req) = 8
        \<and> toArr (nullish (param req ''skus'') (param req ''skus_ids'')) = pre @ s # ss
        \<and> length (pre @ s # ss) = length (toArr (param req ''quantities''))
        \<and> resolve_ids (env_num e) m pre [] = Inr ids
        \<and> \<not> all_digits s \<and> getId m s = Some (Num 0) \<longrightarrow>
        proxy_handler_cached cfg e m now_get now_set c req =
          \<lparr>out_status = 400, out_body = ErrorBody (msg_unmapped s), out_cache = c,
           out_calls = []\<rparr>
        \<and> proxy_handler_inline cfg e m now_get now_set c req =
          \<lparr>out_status = 400, out_body = ErrorBody (msg_unmapped s), out_cache = c,
           out_calls = []\<rparr>)
   \<and> (resolve_ids num m codes ids0 = Inr ids1 \<and> s \<in> set codes \<and> \<not> all_digits s \<longrightarrow>
        getId m s \<noteq> None \<and> getId m s \<noteq> Some (Num 0))"
proof (intro conjI impI)
  assume "\<not> all_digits s \<and> getId m s = Some (Num 0)"
  then show "resolve_ids num m (s # ss) ids = Inl s"
    by (intro resolve_ids_falsy) simp_all
next
  assume "\<not> all_digits s \<and> getId m s = None"
  then show "resolve_ids num m (s # ss) ids = Inl s"
    by (intro resolve_ids_falsy) simp_all
next
  assume a: "resolve_ids num m pre [] = Inr ids \<and> \<not> all_digits s \<and> getId m s = Some (Num 0)"
  then have "resolve_ids num m (s # ss) ids = Inl s"
    by (intro resolve_ids_falsy) simp_all
  with a show "resolve_ids num m (pre @ s # ss) [] = Inl s"
    by (simp only: resolve_ids_append sum.case)
next
  assume a: "signature_ok cfg e req \<and> length (parse_cep req) = 8
      \<and> toArr (nullish (param req ''skus'') (param req ''skus_ids'')) = pre @ s # ss
      \<and> length (pre @ s # ss) = length (toArr (param req ''quantities''))
      \<and> resolve_ids (env_num e) m pre [] = Inr ids
      \<and> \<not> all_digits s \<and> getId m s = Some (Num 0)"
  then have "resolve_ids (env_num e) m (s # ss) ids = Inl s"
    by (intro resolve_ids_falsy) simp_all
  with a have "resolve_ids (env_num e) m (pre @ s # ss) [] = Inl s"
    by (simp only: resolve_ids_append sum.case)
  moreover have "prepare cfg e m req =
      (case resolve_ids (env_num e) m (pre @ s # ss) [] of
         Inl s \<Rightarrow> Reject 400 (msg_unmapped s)
       | Inr ids \<Rightarrow>
           Ready (parse_cep req)
             (map_option (\<lambda>v. env_num e (to_String v)) (param req ''total''))
             ids (map (env_num e) (toArr (param req ''quantities''))))"
    using a by (intro prepare_resolve) simp_all
  ultimately have "prepare cfg e m req = Reject 400 (msg_unmapped s)"
    by simp
  then show "proxy_handler_cached cfg e m now_get now_set c req =
      \<lparr>out_status = 400, out_body = ErrorBody (msg_unmapped s), out_cache = c, out_calls = []\<rparr>"
    and "proxy_handler_inline cfg e m now_get now_set c req =
      \<lparr>out_status = 400, out_body = ErrorBody (msg_unmapped s), out_cache = c, out_calls = []\<rparr>"
    by (simp_all add: cached_reject inline_reject)
next
  assume a: "resolve_ids num m codes ids0 = Inr ids1 \<and> s \<in> set codes \<and> \<not> all_digits s"
  then obtain v where "getId m s = Some v" and "\<not> falsy_num v"
    using resolve_ids_truthy [of num m codes ids0 ids1 s] by blast
  then show "getId m s \<noteq> None" and "getId m s \<noteq> Some (Num 0)"
    by (auto simp: falsy_num_def)
qed

theorem zero_id_treated_as_unmapped_witness:
  "getId sample_catalog ''ZERO'' = Some (Num 0)
   \<and> proxy_handler_cached (sample_config ''true'') (sample_env up_quotes) sample_catalog
       1000 1001 Map.empty zero_id_request
     = \<lparr>out_status = 400, out_body = ErrorBody ''SKU sem ID cadastrado na Yampi: ZERO'',
        out_cache = Map.empty, out_calls = []\<rparr>
   \<and> proxy_handler_inline (sample_config ''true'') (sample_env up_quotes) sample_catalog
       1000 1001 Map.empty zero_id_request
     = \<lparr>out_status = 400, out_body = ErrorBody ''SKU sem ID cadastrado na Yampi: ZERO'',
        out_cache = Map.empty, out_calls = []\<rparr>"
proof -
  have zero: "getId sample_catalog ''ZERO'' = Some (Num 0)" "\<not> all_digits ''ZERO''"
    by (simp_all add: getId_def sample_catalog_def trim_def is_space_def all_digits_def
        is_digit_def)
  have pre: "resolve_ids sample_num sample_catalog [''SKU1''] [] = Inr [Num 501]"
    by (simp add: getId_def sample_catalog_def trim_def is_space_def all_digits_def
        is_digit_def falsy_num_def)
  have req: "signature_ok (sample_config ''true'') (sample_env up_quotes) zero_id_request"
    "length (parse_cep zero_id_request) = 8"
    "toArr (nullish (param zero_id_request ''skus'') (param zero_id_request ''skus_ids''))
       = [''SKU1''] @ ''ZERO'' # []"
    "length ([''SKU1''] @ ''ZERO'' # []) = length (toArr (param zero_id_request ''quantities''))"
    by (simp_all add: signature_ok_def sample_config_sel parse_cep_def param_def nullish_def
        zero_id_request_def is_digit_def trim_def is_space_def)
  show ?thesis
    using zero_id_treated_as_unmapped [where s = "''ZERO''" and m = sample_catalog
        and num = sample_num and pre = "[''SKU1'']" and ss = "[]" and ids = "[Num 501]"
        and cfg = "sample_config ''true''" and e = "sample_env up_quotes"
        and req = zero_id_request and now_get = 1000 and now_set = 1001 and c = Map.empty]
      zero pre req
    by (simp add: sample_env_sel msg_unmapped_def)
qed

end
